theory Spec2Isabelle
  imports Complex_Main "HOL-Library.Word" "HOL-Library.Stream"
begin

section \<open>Python values\<close>

text \<open>
  A Python \<open>str\<close> is a sequence of Unicode code points and \<open>len\<close> counts code
  points, so a string is a list of code points. \<open>bytes\<close> is a list of octets. A
  \<open>float\<close> is a real number: readings are finite and the arithmetic of the
  governor is taken exactly (no rounding).
\<close>

type_synonym pystr = "nat list"
type_synonym pybytes = "8 word list"

definition ascii :: "string \<Rightarrow> pystr" where
  "ascii s = map of_char s"

section \<open>The Python library the code calls\<close>

text \<open>
  The Unicode tables behind \<open>\w\<close> and \<open>str.isdigit\<close>, the parser \<open>float\<close> and
  the formatter \<open>format(x, '.1f')\<close> belong to the interpreter, not to the
  repository. Their values on ASCII are fixed below; beyond ASCII they are
  parameters. \<open>float_of\<close> gives \<open>None\<close> where \<open>float\<close> raises \<open>ValueError\<close>.
\<close>

record pylib =
  uni_word :: "nat \<Rightarrow> bool"
  uni_digit :: "nat \<Rightarrow> bool"
  float_of :: "pystr \<Rightarrow> real option"
  fmt_1f :: "real \<Rightarrow> pystr"

text \<open>White space as \<open>str.isspace\<close>, \<open>str.strip\<close>, \<open>str.split\<close> and the
  pattern \<open>\s\<close> see it.\<close>

definition is_space :: "nat \<Rightarrow> bool" where
  "is_space c \<longleftrightarrow>
     (9 \<le> c \<and> c \<le> 13) \<or> (28 \<le> c \<and> c \<le> 32) \<or> c = 133 \<or> c = 160 \<or> c = 5760 \<or>
     (8192 \<le> c \<and> c \<le> 8202) \<or> c = 8232 \<or> c = 8233 \<or> c = 8239 \<or> c = 8287 \<or> c = 12288"

definition is_digit :: "pylib \<Rightarrow> nat \<Rightarrow> bool" where
  "is_digit L c = (if c < 128 then 48 \<le> c \<and> c \<le> 57 else uni_digit L c)"

definition is_word :: "pylib \<Rightarrow> nat \<Rightarrow> bool" where
  "is_word L c =
     (if c < 128
      then (48 \<le> c \<and> c \<le> 57) \<or> (65 \<le> c \<and> c \<le> 90) \<or> c = 95 \<or> (97 \<le> c \<and> c \<le> 122)
      else uni_word L c)"

definition py_strip :: "pystr \<Rightarrow> pystr" where
  "py_strip s = rev (dropWhile is_space (rev (dropWhile is_space s)))"

definition py_isdigit :: "pylib \<Rightarrow> pystr \<Rightarrow> bool" where
  "py_isdigit L s \<longleftrightarrow> s \<noteq> [] \<and> list_all (is_digit L) s"

text \<open>\<open>needle in hay\<close> on strings.\<close>

fun py_in :: "pystr \<Rightarrow> pystr \<Rightarrow> bool" where
  "py_in needle [] = (needle = [])"
| "py_in needle (c # cs) = (take (length needle) (c # cs) = needle \<or> py_in needle cs)"

text \<open>\<open>s.split(sep)\<close> for a separator of one character: never empty.\<close>

fun split_on :: "nat \<Rightarrow> pystr \<Rightarrow> pystr list" where
  "split_on sep [] = [[]]"
| "split_on sep (c # cs) =
     (if c = sep then [] # split_on sep cs
      else (case split_on sep cs of
              [] \<Rightarrow> [[c]]
            | w # ws \<Rightarrow> (c # w) # ws))"

text \<open>\<open>s.split()\<close>: the maximal runs of characters that are not white space.\<close>

fun split_ws_from :: "pystr \<Rightarrow> pystr \<Rightarrow> pystr list" where
  "split_ws_from cur [] = (if cur = [] then [] else [cur])"
| "split_ws_from cur (c # cs) =
     (if is_space c then (if cur = [] then split_ws_from [] cs else cur # split_ws_from [] cs)
      else split_ws_from (cur @ [c]) cs)"

definition py_split :: "pystr \<Rightarrow> pystr list" where
  "py_split s = split_ws_from [] s"

text \<open>\<open>xs[i]\<close>: \<open>None\<close> stands for \<open>IndexError\<close>.\<close>

definition item :: "'a list \<Rightarrow> nat \<Rightarrow> 'a option" where
  "item xs i = (if i < length xs then Some (xs ! i) else None)"

subsection \<open>Codecs\<close>

datatype encoding = Utf8 | Cp1251 | Latin1 | Ascii

definition cont :: "nat \<Rightarrow> bool" where
  "cont c \<longleftrightarrow> 128 \<le> c \<and> c \<le> 191"

text \<open>Strict UTF-8: no overlong form, no surrogate, nothing above U+10FFFF.\<close>

fun utf8 :: "nat list \<Rightarrow> nat list option" where
  "utf8 [] = Some []"
| "utf8 (b # bs) =
     (if b < 128 then map_option ((#) b) (utf8 bs)
      else if 194 \<le> b \<and> b \<le> 223 then
        (case bs of
           c1 # r \<Rightarrow>
             if cont c1 then map_option ((#) ((b - 192) * 64 + (c1 - 128))) (utf8 r) else None
         | _ \<Rightarrow> None)
      else if 224 \<le> b \<and> b \<le> 239 then
        (case bs of
           c1 # c2 # r \<Rightarrow>
             if (if b = 224 then 160 else 128) \<le> c1 \<and> c1 \<le> (if b = 237 then 159 else 191) \<and> cont c2
             then map_option ((#) ((b - 224) * 4096 + (c1 - 128) * 64 + (c2 - 128))) (utf8 r)
             else None
         | _ \<Rightarrow> None)
      else if 240 \<le> b \<and> b \<le> 244 then
        (case bs of
           c1 # c2 # c3 # r \<Rightarrow>
             if (if b = 240 then 144 else 128) \<le> c1 \<and> c1 \<le> (if b = 244 then 143 else 191) \<and>
                cont c2 \<and> cont c3
             then map_option
                    ((#) ((b - 240) * 262144 + (c1 - 128) * 4096 + (c2 - 128) * 64 + (c3 - 128)))
                    (utf8 r)
             else None
         | _ \<Rightarrow> None)
      else None)"

text \<open>Windows-1251: the octets 128 to 191 by table (152 has no character), 192 to
  255 are the Russian alphabet from U+0410.\<close>

definition cp1251_table :: "nat list" where
  "cp1251_table =
     [1026, 1027, 8218, 1107, 8222, 8230, 8224, 8225, 8364, 8240, 1033, 8249, 1034, 1036,
      1035, 1039, 1106, 8216, 8217, 8220, 8221, 8226, 8211, 8212, 0, 8482, 1113, 8250,
      1114, 1116, 1115, 1119, 160, 1038, 1118, 1032, 164, 1168, 166, 167, 1025, 169, 1028,
      171, 172, 173, 174, 1031, 176, 177, 1030, 1110, 1169, 181, 182, 183, 1105, 8470,
      1108, 187, 1112, 1029, 1109, 1111]"

definition cp1251_char :: "nat \<Rightarrow> nat option" where
  "cp1251_char b =
     (if b < 128 then Some b
      else if b = 152 then None
      else if b < 192 then Some (cp1251_table ! (b - 128))
      else Some (1040 + (b - 192)))"

fun cp1251 :: "nat list \<Rightarrow> nat list option" where
  "cp1251 [] = Some []"
| "cp1251 (b # bs) =
     (case cp1251_char b of
        None \<Rightarrow> None
      | Some c \<Rightarrow> map_option ((#) c) (cp1251 bs))"

text \<open>\<open>data.decode(encoding)\<close>; \<open>None\<close> stands for \<open>UnicodeDecodeError\<close>.\<close>

definition decode :: "encoding \<Rightarrow> pybytes \<Rightarrow> pystr option" where
  "decode e data =
     (case e of
        Utf8 \<Rightarrow> utf8 (map unat data)
      | Cp1251 \<Rightarrow> cp1251 (map unat data)
      | Latin1 \<Rightarrow> Some (map unat data)
      | Ascii \<Rightarrow> (if list_all (\<lambda>b. unat b < 128) data then Some (map unat data) else None))"

text \<open>\<open>data.decode('latin1', errors='replace')\<close>: every octet is a character of
  Latin-1, so nothing is replaced.\<close>

definition decode_latin1_replace :: "pybytes \<Rightarrow> pystr" where
  "decode_latin1_replace data = map unat data"

section \<open>server\_monitor.py: the command channel\<close>

definition ENCODINGS :: "encoding list" where
  "ENCODINGS = [Utf8, Cp1251, Latin1, Ascii]"

text \<open>The fields of \<open>ServerMonitor\<close> the modelled methods read or write. The
  paramiko client is the environment's.\<close>

record monitor =
  ssh_host :: pystr
  ssh_user :: pystr
  ssh_key_path :: pystr
  ssh_password :: pystr
  is_connected :: bool
  last_check_time :: real
  check_interval :: real
  last_cpu_temp :: real
  last_gpu_temp :: real

text \<open>What the environment answers to one call of \<open>connect\<close>: whether the key
  path is a file, and whether \<open>client.connect\<close> returns (or raises).\<close>

record conn_env =
  key_is_file :: bool
  handshake_ok :: bool

text \<open>\<open>exec_command\<close> followed by the two reads: the raw octets of stdout and
  stderr, or an exception with its message \<open>str(e)\<close>.\<close>

datatype exec_outcome = Returned pybytes pybytes | Raised pystr

text \<open>What the environment would answer inside one call of \<open>_execute_command\<close>,
  for each call the method can make there.\<close>

record ssh_env =
  first_connect :: conn_env
  first_exec :: exec_outcome
  transport_active :: bool
  reconnect :: conn_env
  retry_exec :: exec_outcome

text \<open>The calls that leave the process, in the order made.\<close>

datatype event = Connect | Exec | TransportCheck

definition connect :: "monitor \<Rightarrow> conn_env \<Rightarrow> bool \<times> monitor" where
  "connect s c =
     (if ssh_host s = [] \<or> ssh_user s = [] then (False, s)
      else if key_is_file c then
        (if handshake_ok c then (True, s\<lparr>is_connected := True\<rparr>)
         else (False, s\<lparr>is_connected := False\<rparr>))
      else if ssh_password s \<noteq> [] then
        (if handshake_ok c then (True, s\<lparr>is_connected := True\<rparr>)
         else (False, s\<lparr>is_connected := False\<rparr>))
      else (False, s))"

text \<open>The loop \<open>for encoding in ENCODINGS\<close>: empty data leaves the loop at once
  with the empty string; a failed decoding goes on to the next encoding.\<close>

fun try_encodings :: "encoding list \<Rightarrow> pybytes \<Rightarrow> pystr" where
  "try_encodings [] data = []"
| "try_encodings (e # es) data =
     (if data \<noteq> [] then
        (case decode e data of
           Some str \<Rightarrow> str
         | None \<Rightarrow> try_encodings es data)
      else [])"

definition decode_output :: "pybytes \<Rightarrow> pystr" where
  "decode_output data =
     (let str = try_encodings ENCODINGS data
      in if str = [] \<and> data \<noteq> [] then decode_latin1_replace data else str)"

definition msg_no_connection :: pystr where
  "msg_no_connection =
     [1053, 1077, 1090, 32, 1087, 1086, 1076, 1082, 1083, 1102, 1095, 1077, 1085, 1080,
      1103, 32, 1082, 32, 1089, 1077, 1088, 1074, 1077, 1088, 1091]"

definition msg_error :: pystr where
  "msg_error = [1054, 1096, 1080, 1073, 1082, 1072, 58, 32]"

definition msg_error_after_reconnect :: pystr where
  "msg_error_after_reconnect =
     [1054, 1096, 1080, 1073, 1082, 1072, 32, 1087, 1086, 1089, 1083, 1077, 32, 1087, 1077,
      1088, 1077, 1087, 1086, 1076, 1082, 1083, 1102, 1095, 1077, 1085, 1080, 1103, 58, 32]"

definition msg_timeout :: pystr where
  "msg_timeout =
     [1055, 1088, 1077, 1074, 1099, 1096, 1077, 1085, 32, 1090, 1072, 1081, 1084, 1072,
      1091, 1090, 32, 1074, 1099, 1087, 1086, 1083, 1085, 1077, 1085, 1080, 1103, 32, 1082,
      1086, 1084, 1072, 1085, 1076, 1099]"

text \<open>\<open>ServerMonitor._execute_command\<close>: the pair (stdout, stderr), the monitor
  after the call and the external calls made.\<close>

definition execute_command ::
  "monitor \<Rightarrow> pystr \<Rightarrow> ssh_env \<Rightarrow> (pystr \<times> pystr) \<times> monitor \<times> event list" where
  "execute_command s command e =
     (let (ok, s1, tr1) =
            (if \<not> is_connected s
             then (let (b, s') = connect s (first_connect e) in (b, s', [Connect]))
             else (True, s, []))
      in if \<not> ok then (([], msg_no_connection), s1, tr1)
         else
           (case first_exec e of
              Returned stdout_data stderr_data \<Rightarrow>
                ((decode_output stdout_data, decode_output stderr_data), s1, tr1 @ [Exec])
            | Raised msg \<Rightarrow>
                if \<not> transport_active e then
                  (let s2 = s1\<lparr>is_connected := False\<rparr>;
                       (b, s3) = connect s2 (reconnect e);
                       tr3 = tr1 @ [Exec, TransportCheck, Connect]
                   in if b then
                        (case retry_exec e of
                           Returned stdout_data stderr_data \<Rightarrow>
                             (((if stdout_data \<noteq> [] then decode_latin1_replace stdout_data else []),
                               (if stderr_data \<noteq> [] then decode_latin1_replace stderr_data else [])),
                              s3, tr3 @ [Exec])
                         | Raised msg2 \<Rightarrow>
                             (([], msg_error_after_reconnect @ msg2), s3, tr3 @ [Exec]))
                      else (([], msg_error @ msg), s3, tr3))
                else (([], msg_error @ msg), s1, tr1 @ [Exec, TransportCheck])))"

text \<open>What one \<open>subprocess\<close> run gives: the octets of both pipes, a timeout, or
  another exception with its message.\<close>

datatype proc_outcome = Completed pybytes pybytes | TimeoutExpired | Failed pystr

text \<open>\<open>ServerMonitor._execute_local_command\<close>.\<close>

definition execute_local_command :: "pystr \<Rightarrow> proc_outcome \<Rightarrow> pystr \<times> pystr" where
  "execute_local_command command p =
     (case p of
        Completed stdout_data stderr_data \<Rightarrow>
          (decode_output stdout_data, decode_output stderr_data)
      | TimeoutExpired \<Rightarrow> ([], msg_timeout)
      | Failed msg \<Rightarrow> ([], msg_error @ msg))"

text \<open>The world outside the process: the platform, and what each later remote
  call and each later local run will answer, in order.\<close>

record world =
  windows :: bool
  ssh_feed :: "ssh_env stream"
  local_feed :: "proc_outcome stream"

definition remote_call :: "monitor \<Rightarrow> world \<Rightarrow> pystr \<Rightarrow> (pystr \<times> pystr) \<times> monitor \<times> world" where
  "remote_call s w command =
     (let (r, s', tr) = execute_command s command (shd (ssh_feed w))
      in (r, s', w\<lparr>ssh_feed := stl (ssh_feed w)\<rparr>))"

definition local_call :: "world \<Rightarrow> pystr \<Rightarrow> (pystr \<times> pystr) \<times> world" where
  "local_call w command =
     (execute_local_command command (shd (local_feed w)), w\<lparr>local_feed := stl (local_feed w)\<rparr>)"

section \<open>server\_monitor.py: the temperature readers\<close>

text \<open>The shell commands. The quotation mark is code point 34, the apostrophe 39,
  the backslash 92.\<close>

definition cmd_thermal_zone :: pystr where
  "cmd_thermal_zone = ascii ''cat /sys/class/thermal/thermal_zone*/temp | head -n 1''"

definition cmd_sensors :: pystr where
  "cmd_sensors =
     ascii ''sensors | grep 'Core' | awk '{print $3}' | grep -Eo '[0-9]+' | head -n 1''"

definition cmd_nvidia_smi :: pystr where
  "cmd_nvidia_smi = ascii ''nvidia-smi --query-gpu=temperature.gpu --format=csv,noheader''"

definition cmd_rocm_smi :: pystr where
  "cmd_rocm_smi = ascii ''rocm-smi --showtemp''"

definition cmd_vulkaninfo :: pystr where
  "cmd_vulkaninfo = ascii ''vulkaninfo | grep 'deviceTemperature'' @ [39]"

definition cmd_wmi_thermal_zone :: pystr where
  "cmd_wmi_thermal_zone =
     ascii ''powershell '' @ [34] @
     ascii ''Get-WmiObject MSAcpi_ThermalZoneTemperature -Namespace root/wmi | Select-Object CurrentTemperature'' @
     [34]"

definition cmd_cim_thermal_zone :: pystr where
  "cmd_cim_thermal_zone =
     ascii ''powershell '' @ [34] @
     ascii ''Get-CimInstance Win32_PerfFormattedData_Counters_ThermalZoneInformation | Select-Object Temperature'' @
     [34]"

definition cmd_wmic :: pystr where
  "cmd_wmic =
     ascii ''wmic /namespace:'' @ [92, 92] @ ascii ''root'' @ [92] @
     ascii ''wmi PATH MSAcpi_ThermalZoneTemperature get CurrentTemperature''"

definition cmd_amd_detect :: pystr where
  "cmd_amd_detect =
     ascii ''powershell '' @ [34] @ ascii ''(Get-WmiObject -Namespace root'' @ [92] @
     ascii ''WMI -Class AMD_ACPI_Event).InstanceName'' @ [34]"

definition cmd_amd_thermal_zone :: pystr where
  "cmd_amd_thermal_zone =
     ascii ''powershell '' @ [34] @ ascii ''Get-WmiObject -Namespace root'' @ [92] @
     ascii ''WMI -Class AMD_ACPI_ThermalZoneInfo | Select-Object CurrentTemperature'' @ [34]"

definition cmd_amdgpu_utility :: pystr where
  "cmd_amdgpu_utility = ascii ''amdgpu-utility -t''"

definition cmd_gpu_counter :: pystr where
  "cmd_gpu_counter =
     ascii ''powershell '' @ [34] @ ascii ''Get-Counter -Counter '' @ [39, 92] @
     ascii ''GPU Engine(*engtype_3D)'' @ [92] @ ascii ''Utilization Percentage'' @ [39] @
     ascii '' | Select-Object -ExpandProperty CounterSamples | Select-Object CookedValue'' @
     [34]"

text \<open>One step of a fallback chain: a temperature, nothing usable (the chain goes
  on), or an exception that leaves the enclosing \<open>try\<close>.\<close>

datatype attempt = Got real | Nothing | Raises

text \<open>The \<open>try\<close> block that ends \<open>get_cpu_temperature\<close>: \<open>None\<close> when \<open>float\<close>
  raises.\<close>

definition cpu_parse :: "pylib \<Rightarrow> pystr \<Rightarrow> real option" where
  "cpu_parse L stdout =
     (if py_isdigit L (py_strip stdout) \<and> length (py_strip stdout) > 2
      then map_option (\<lambda>x. x / 1000.0) (float_of L (py_strip stdout))
      else float_of L (py_strip stdout))"

definition cpu_finish :: "pylib \<Rightarrow> pystr \<Rightarrow> monitor \<Rightarrow> world \<Rightarrow> real \<times> monitor \<times> world" where
  "cpu_finish L stdout s w =
     (case cpu_parse L stdout of
        Some temp \<Rightarrow> (temp, s\<lparr>last_cpu_temp := temp\<rparr>, w)
      | None \<Rightarrow> (last_cpu_temp s, s, w))"

text \<open>\<open>_get_windows_cpu_temperature\<close>, its three queries.\<close>

definition win_cpu_wmi :: "pylib \<Rightarrow> pystr \<times> pystr \<Rightarrow> attempt" where
  "win_cpu_wmi L r =
     (case r of (stdout, stderr) \<Rightarrow>
        if stderr = [] \<and> py_in (ascii ''CurrentTemperature'') stdout then
          (let temp_lines =
                 filter (\<lambda>line. py_strip line \<noteq> [] \<and> \<not> py_in (ascii ''CurrentTemperature'') line)
                   (split_on 10 (py_strip stdout))
           in if temp_lines \<noteq> [] then
                (case float_of L (py_strip (hd temp_lines)) of
                   None \<Rightarrow> Raises
                 | Some x \<Rightarrow> (let temp = x / 10 - 273.15 in if temp > 0 then Got temp else Nothing))
              else Nothing)
        else Nothing)"

definition win_cpu_cim :: "pylib \<Rightarrow> pystr \<times> pystr \<Rightarrow> attempt" where
  "win_cpu_cim L r =
     (case r of (stdout, stderr) \<Rightarrow>
        if stderr = [] \<and> py_in (ascii ''Temperature'') stdout then
          (let temp_lines =
                 filter (\<lambda>line. py_strip line \<noteq> [] \<and> \<not> py_in (ascii ''Temperature'') line)
                   (split_on 10 (py_strip stdout))
           in if temp_lines \<noteq> [] then
                (case float_of L (py_strip (hd temp_lines)) of
                   None \<Rightarrow> Raises
                 | Some temp \<Rightarrow> if temp > 0 then Got temp else Nothing)
              else Nothing)
        else Nothing)"

definition win_cpu_wmic :: "pylib \<Rightarrow> pystr \<times> pystr \<Rightarrow> attempt" where
  "win_cpu_wmic L r =
     (case r of (stdout, stderr) \<Rightarrow>
        if stderr = [] \<and> py_strip stdout \<noteq> [] then
          (let lines = split_on 10 (py_strip stdout)
           in if length lines > 1 then
                (case float_of L (py_strip (lines ! 1)) of
                   None \<Rightarrow> Raises
                 | Some x \<Rightarrow> (let temp = x / 10 - 273.15 in if temp > 0 then Got temp else Nothing))
              else Nothing)
        else Nothing)"

definition get_windows_cpu_temperature :: "pylib \<Rightarrow> monitor \<Rightarrow> world \<Rightarrow> real \<times> monitor \<times> world" where
  "get_windows_cpu_temperature L s w =
     (let (r1, w1) = local_call w cmd_wmi_thermal_zone in
      case win_cpu_wmi L r1 of
        Got temp \<Rightarrow> (temp, s\<lparr>last_cpu_temp := temp\<rparr>, w1)
      | Raises \<Rightarrow> (last_cpu_temp s, s, w1)
      | Nothing \<Rightarrow>
          (let (r2, w2) = local_call w1 cmd_cim_thermal_zone in
           case win_cpu_cim L r2 of
             Got temp \<Rightarrow> (temp, s\<lparr>last_cpu_temp := temp\<rparr>, w2)
           | Raises \<Rightarrow> (last_cpu_temp s, s, w2)
           | Nothing \<Rightarrow>
               (let (r3, w3) = local_call w2 cmd_wmic in
                case win_cpu_wmic L r3 of
                  Got temp \<Rightarrow> (temp, s\<lparr>last_cpu_temp := temp\<rparr>, w3)
                | Raises \<Rightarrow> (last_cpu_temp s, s, w3)
                | Nothing \<Rightarrow>
                    if last_cpu_temp s \<le> 0 then (35.0, s\<lparr>last_cpu_temp := 35.0\<rparr>, w3)
                    else (last_cpu_temp s, s, w3))))"

text \<open>\<open>ServerMonitor.get_cpu_temperature\<close>.\<close>

definition get_cpu_temperature :: "pylib \<Rightarrow> monitor \<Rightarrow> world \<Rightarrow> real \<times> monitor \<times> world" where
  "get_cpu_temperature L s w =
     (if windows w then get_windows_cpu_temperature L s w
      else
        (let ((stdout, stderr), s1, w1) = remote_call s w cmd_thermal_zone in
         if stderr \<noteq> [] then
           (let ((stdout2, stderr2), s2, w2) = remote_call s1 w1 cmd_sensors in
            if stderr2 \<noteq> [] then (last_cpu_temp s2, s2, w2)
            else cpu_finish L stdout2 s2 w2)
         else cpu_finish L stdout s1 w1))"

text \<open>\<open>get_gpu_temperature\<close>, its three tools. Inside each \<open>try\<close> an
  \<open>IndexError\<close> or \<open>ValueError\<close> is caught and the chain goes on, so a failed
  parse is \<open>None\<close>.\<close>

definition gpu_nvidia :: "pylib \<Rightarrow> pystr \<times> pystr \<Rightarrow> real option" where
  "gpu_nvidia L r =
     (case r of (stdout, stderr) \<Rightarrow>
        if stderr = [] \<and> py_strip stdout \<noteq> [] then float_of L (py_strip stdout) else None)"

definition gpu_rocm :: "pylib \<Rightarrow> pystr \<times> pystr \<Rightarrow> real option" where
  "gpu_rocm L r =
     (case r of (stdout, stderr) \<Rightarrow>
        if stderr = [] \<and> py_in (ascii ''Temperature'') stdout then
          (case item (filter (py_in (ascii ''Temperature'')) (split_on 10 stdout)) 0 of
             None \<Rightarrow> None
           | Some temp_line \<Rightarrow>
               (case item (split_on 58 temp_line) 1 of
                  None \<Rightarrow> None
                | Some field \<Rightarrow>
                    (case item (py_split field) 0 of
                       None \<Rightarrow> None
                     | Some tok \<Rightarrow> float_of L tok)))
        else None)"

definition gpu_vulkan :: "pylib \<Rightarrow> pystr \<times> pystr \<Rightarrow> real option" where
  "gpu_vulkan L r =
     (case r of (stdout, stderr) \<Rightarrow>
        if stderr = [] \<and> py_in (ascii ''deviceTemperature'') stdout then
          (case item (split_on 61 (py_strip stdout)) 1 of
             None \<Rightarrow> None
           | Some field \<Rightarrow>
               (case item (py_split field) 0 of
                  None \<Rightarrow> None
                | Some temp_str \<Rightarrow> float_of L temp_str))
        else None)"

text \<open>\<open>_get_windows_gpu_temperature\<close>, its queries. Every \<open>float\<close> stands in a
  \<open>try\<close> of its own there.\<close>

definition win_gpu_is_amd :: "pystr \<times> pystr \<Rightarrow> bool" where
  "win_gpu_is_amd r =
     (case r of (stdout, stderr) \<Rightarrow> stderr = [] \<and> stdout \<noteq> [] \<and> py_in (ascii ''AMD'') stdout)"

definition win_gpu_wmi :: "pylib \<Rightarrow> pystr \<times> pystr \<Rightarrow> real option" where
  "win_gpu_wmi L r =
     (case r of (stdout, stderr) \<Rightarrow>
        if stderr = [] \<and> py_in (ascii ''CurrentTemperature'') stdout then
          (let temp_lines =
                 filter (\<lambda>line. py_strip line \<noteq> [] \<and> \<not> py_in (ascii ''CurrentTemperature'') line)
                   (split_on 10 (py_strip stdout))
           in if temp_lines \<noteq> [] then
                (case float_of L (py_strip (hd temp_lines)) of
                   None \<Rightarrow> None
                 | Some temp \<Rightarrow> if temp > 0 \<and> temp < 150 then Some temp else None)
              else None)
        else None)"

text \<open>The loop over the lines of \<open>amdgpu-utility -t\<close>: an implausible value goes
  on to the next line, an exception leaves the loop.\<close>

fun amd_utility_lines :: "pylib \<Rightarrow> pystr list \<Rightarrow> real option" where
  "amd_utility_lines L [] = None"
| "amd_utility_lines L (line # rest) =
     (if py_in (ascii ''Temperature'') line then
        (case item (split_on 58 line) 1 of
           None \<Rightarrow> None
         | Some field \<Rightarrow>
             (case float_of L (filter (\<lambda>c. is_digit L c \<or> c = 46) field) of
                None \<Rightarrow> None
              | Some temp \<Rightarrow>
                  if temp > 0 \<and> temp < 150 then Some temp else amd_utility_lines L rest))
      else amd_utility_lines L rest)"

definition win_gpu_utility :: "pylib \<Rightarrow> pystr \<times> pystr \<Rightarrow> real option" where
  "win_gpu_utility L r =
     (case r of (stdout, stderr) \<Rightarrow>
        if stderr = [] \<and> py_strip stdout \<noteq> []
        then amd_utility_lines L (split_on 10 (py_strip stdout))
        else None)"

definition win_gpu_wmic :: "pylib \<Rightarrow> pystr \<times> pystr \<Rightarrow> real option" where
  "win_gpu_wmic L r =
     (case r of (stdout, stderr) \<Rightarrow>
        if stderr = [] \<and> py_strip stdout \<noteq> [] then
          (let lines = split_on 10 (py_strip stdout)
           in if length lines > 1 then
                (case float_of L (py_strip (lines ! 1)) of
                   None \<Rightarrow> None
                 | Some x \<Rightarrow>
                     (let temp = x / 10 - 273.15
                      in if temp > 0 \<and> temp < 150 then Some temp else None))
              else None)
        else None)"

text \<open>The end of \<open>_get_windows_gpu_temperature\<close>, from the \<open>wmic\<close> query on.\<close>

definition win_gpu_general :: "pylib \<Rightarrow> monitor \<Rightarrow> world \<Rightarrow> real \<times> monitor \<times> world" where
  "win_gpu_general L s w =
     (let (r, w1) = local_call w cmd_wmic in
      case win_gpu_wmic L r of
        Some temp \<Rightarrow> (temp, s\<lparr>last_gpu_temp := temp\<rparr>, w1)
      | None \<Rightarrow>
          if last_gpu_temp s \<le> 0 then (60.0, s\<lparr>last_gpu_temp := 60.0\<rparr>, w1)
          else (last_gpu_temp s, s, w1))"

definition get_windows_gpu_temperature :: "pylib \<Rightarrow> monitor \<Rightarrow> world \<Rightarrow> real \<times> monitor \<times> world" where
  "get_windows_gpu_temperature L s w =
     (let (r0, w0) = local_call w cmd_amd_detect in
      if win_gpu_is_amd r0 then
        (let (r1, w1) = local_call w0 cmd_amd_thermal_zone in
         case win_gpu_wmi L r1 of
           Some temp \<Rightarrow> (temp, s\<lparr>last_gpu_temp := temp\<rparr>, w1)
         | None \<Rightarrow>
             (let (r2, w2) = local_call w1 cmd_amdgpu_utility in
              case win_gpu_utility L r2 of
                Some temp \<Rightarrow> (temp, s\<lparr>last_gpu_temp := temp\<rparr>, w2)
              | None \<Rightarrow>
                  (let (r3, w3) = local_call w2 cmd_gpu_counter in
                   win_gpu_general L s w3)))
      else win_gpu_general L s w0)"

text \<open>\<open>ServerMonitor.get_gpu_temperature\<close>.\<close>

definition get_gpu_temperature :: "pylib \<Rightarrow> monitor \<Rightarrow> world \<Rightarrow> real \<times> monitor \<times> world" where
  "get_gpu_temperature L s w =
     (if windows w then get_windows_gpu_temperature L s w
      else
        (let (r1, s1, w1) = remote_call s w cmd_nvidia_smi in
         case gpu_nvidia L r1 of
           Some temp \<Rightarrow> (temp, s1\<lparr>last_gpu_temp := temp\<rparr>, w1)
         | None \<Rightarrow>
             (let (r2, s2, w2) = remote_call s1 w1 cmd_rocm_smi in
              case gpu_rocm L r2 of
                Some temp \<Rightarrow> (temp, s2\<lparr>last_gpu_temp := temp\<rparr>, w2)
              | None \<Rightarrow>
                  (let (r3, s3, w3) = remote_call s2 w2 cmd_vulkaninfo in
                   case gpu_vulkan L r3 of
                     Some temp \<Rightarrow> (temp, s3\<lparr>last_gpu_temp := temp\<rparr>, w3)
                   | None \<Rightarrow> (last_gpu_temp s3, s3, w3)))))"

section \<open>server\_monitor.py: thresholds and health status\<close>

definition CPU_TEMP_WARNING :: real where "CPU_TEMP_WARNING = 70.0"
definition CPU_TEMP_CRITICAL :: real where "CPU_TEMP_CRITICAL = 85.0"
definition GPU_TEMP_WARNING :: real where "GPU_TEMP_WARNING = 75.0"
definition GPU_TEMP_CRITICAL :: real where "GPU_TEMP_CRITICAL = 90.0"

definition NORMAL_CHECK_INTERVAL :: real where "NORMAL_CHECK_INTERVAL = 5.0"
definition WARNING_CHECK_INTERVAL :: real where "WARNING_CHECK_INTERVAL = 2.0"
definition CRITICAL_CHECK_INTERVAL :: real where "CRITICAL_CHECK_INTERVAL = 1.0"

text \<open>\<open>ServerMonitor._get_status\<close> (the call to the logger in the first branch
  returns nothing and is left out).\<close>

definition get_status :: "real \<Rightarrow> real \<Rightarrow> string" where
  "get_status cpu_temp gpu_temp =
     (if cpu_temp \<le> 0 \<or> gpu_temp \<le> 0 then ''error''
      else if cpu_temp \<ge> CPU_TEMP_CRITICAL \<or> gpu_temp \<ge> GPU_TEMP_CRITICAL then ''critical''
      else if cpu_temp \<ge> CPU_TEMP_WARNING \<or> gpu_temp \<ge> GPU_TEMP_WARNING then ''warning''
      else ''normal'')"

section \<open>server\_monitor.py: the governor\<close>

text \<open>The dictionary \<open>check_temperature\<close> returns.\<close>

record sample =
  cpu_temp :: real
  gpu_temp :: real
  status :: string
  cached :: bool

text \<open>\<open>ServerMonitor.check_temperature\<close>; \<open>now\<close> is what \<open>time.time()\<close> returns
  in this call.\<close>

definition check_temperature ::
  "pylib \<Rightarrow> monitor \<Rightarrow> world \<Rightarrow> real \<Rightarrow> sample \<times> monitor \<times> world" where
  "check_temperature L s w now =
     (if now - last_check_time s < check_interval s then
        (\<lparr>cpu_temp = last_cpu_temp s, gpu_temp = last_gpu_temp s,
          status = get_status (last_cpu_temp s) (last_gpu_temp s), cached = True\<rparr>, s, w)
      else
        (let s0 = s\<lparr>last_check_time := now\<rparr>;
             (cpu, s1, w1) = get_cpu_temperature L s0 w;
             (gpu, s2, w2) = get_gpu_temperature L s1 w1;
             st = get_status cpu gpu;
             s3 = s2\<lparr>check_interval :=
                       (if st = ''critical'' then CRITICAL_CHECK_INTERVAL
                        else if st = ''warning'' then WARNING_CHECK_INTERVAL
                        else NORMAL_CHECK_INTERVAL)\<rparr>
         in (\<lparr>cpu_temp = cpu, gpu_temp = gpu, status = st, cached = False\<rparr>, s3, w2)))"

definition msg_critical_temperature :: pystr where
  "msg_critical_temperature =
     [1050, 1088, 1080, 1090, 1080, 1095, 1077, 1089, 1082, 1072, 1103, 32, 1090, 1077,
      1084, 1087, 1077, 1088, 1072, 1090, 1091, 1088, 1072, 58, 32, 67, 80, 85, 32]"

definition msg_measurement_error :: pystr where
  "msg_measurement_error =
     [1054, 1096, 1080, 1073, 1082, 1072, 32, 1080, 1079, 1084, 1077, 1088, 1077, 1085,
      1080, 1103, 32, 1090, 1077, 1084, 1087, 1077, 1088, 1072, 1090, 1091, 1088, 1099, 58,
      32, 67, 80, 85, 32]"

text \<open>The rest of both reason strings: the two readings with one decimal.\<close>

definition readings_text :: "pylib \<Rightarrow> sample \<Rightarrow> pystr" where
  "readings_text L info =
     fmt_1f L (cpu_temp info) @ [176, 67, 44, 32, 71, 80, 85, 32] @
     fmt_1f L (gpu_temp info) @ [176, 67]"

text \<open>\<open>ServerMonitor.should_pause_processing\<close>.\<close>

definition should_pause_processing ::
  "pylib \<Rightarrow> monitor \<Rightarrow> world \<Rightarrow> real \<Rightarrow> (bool \<times> pystr) \<times> monitor \<times> world" where
  "should_pause_processing L s w now =
     (let (status_info, s', w') = check_temperature L s w now
      in if status status_info = ''critical''
         then ((True, msg_critical_temperature @ readings_text L status_info), s', w')
         else if status status_info = ''error''
         then ((False, msg_measurement_error @ readings_text L status_info), s', w')
         else ((False, []), s', w'))"

text \<open>The arithmetic of \<open>calculate_adaptive_delay\<close> on the sample it was given.\<close>

definition delay_of :: "sample \<Rightarrow> real" where
  "delay_of status_info =
     (let base_delay = 0.5 in
      if status status_info = ''error'' then base_delay * 2.0
      else
        (let cpu_factor =
               (if cpu_temp status_info > CPU_TEMP_WARNING
                then 1.0 + 4.0 * (cpu_temp status_info - CPU_TEMP_WARNING)
                             / (CPU_TEMP_CRITICAL - CPU_TEMP_WARNING)
                else 1.0);
             gpu_factor =
               (if gpu_temp status_info > GPU_TEMP_WARNING
                then 1.0 + 4.0 * (gpu_temp status_info - GPU_TEMP_WARNING)
                             / (GPU_TEMP_CRITICAL - GPU_TEMP_WARNING)
                else 1.0);
             delay_factor = max cpu_factor gpu_factor
         in base_delay * delay_factor))"

text \<open>The per-metric factor in the words of the specification: 1 up to the
  warning threshold, a straight line above it that reaches 5 at the critical
  threshold.\<close>

definition interpolation_factor :: "real \<Rightarrow> real \<Rightarrow> real \<Rightarrow> real" where
  "interpolation_factor reading warning critical =
     (if reading \<le> warning then 1 else 1 + 4 * (reading - warning) / (critical - warning))"

text \<open>\<open>ServerMonitor.calculate_adaptive_delay\<close>.\<close>

definition calculate_adaptive_delay ::
  "pylib \<Rightarrow> monitor \<Rightarrow> world \<Rightarrow> real \<Rightarrow> real \<times> monitor \<times> world" where
  "calculate_adaptive_delay L s w now =
     (let (status_info, s', w') = check_temperature L s w now
      in (delay_of status_info, s', w'))"

section \<open>Fixtures for the closed examples\<close>

text \<open>A library instance that knows ASCII only: \<open>float\<close> reads an unsigned decimal
  integer, the formatter prints nothing. \<open>init_monitor\<close> is the monitor as
  \<open>ServerMonitor.__init__\<close> leaves it.\<close>

definition decimal :: "pystr \<Rightarrow> real option" where
  "decimal str =
     (if str \<noteq> [] \<and> list_all (\<lambda>c. 48 \<le> c \<and> c \<le> 57) str
      then Some (real (foldl (\<lambda>a c. a * 10 + (c - 48)) 0 str))
      else None)"

definition plain_lib :: pylib where
  "plain_lib = \<lparr>uni_word = (\<lambda>c. False), uni_digit = (\<lambda>c. False), float_of = decimal,
                 fmt_1f = (\<lambda>x. [])\<rparr>"

definition bytes_of :: "string \<Rightarrow> pybytes" where
  "bytes_of str = map of_char str"

definition init_monitor :: "pystr \<Rightarrow> pystr \<Rightarrow> pystr \<Rightarrow> pystr \<Rightarrow> monitor" where
  "init_monitor host user key_path password =
     \<lparr>ssh_host = host, ssh_user = user, ssh_key_path = key_path, ssh_password = password,
      is_connected = False, last_check_time = 0, check_interval = NORMAL_CHECK_INTERVAL,
      last_cpu_temp = 0.0, last_gpu_temp = 0.0\<rparr>"

definition accepting :: conn_env where
  "accepting = \<lparr>key_is_file = True, handshake_ok = True\<rparr>"

definition answering :: "string \<Rightarrow> ssh_env" where
  "answering out =
     \<lparr>first_connect = accepting, first_exec = Returned (bytes_of out) [],
      transport_active = True, reconnect = accepting, retry_exec = Returned [] []\<rparr>"

definition linux_world :: "string \<Rightarrow> string \<Rightarrow> world" where
  "linux_world cpu_out gpu_out =
     \<lparr>windows = False, ssh_feed = answering cpu_out ## answering gpu_out ## sconst (answering []),
      local_feed = sconst TimeoutExpired\<rparr>"

definition the_monitor :: monitor where
  "the_monitor = init_monitor (ascii ''host'') (ascii ''user'') [] (ascii ''secret'')"

text \<open>A session whose first command fails on a dead transport and whose retry
  returns the two octets of a Cyrillic letter in UTF-8; a Windows host on which
  no query tool runs; a Linux host that cannot be reached.\<close>

definition dropped :: ssh_env where
  "dropped =
     \<lparr>first_connect = accepting, first_exec = Raised (ascii ''Socket is closed''),
      transport_active = False, reconnect = accepting,
      retry_exec = Returned [0xD0, 0xBF] []\<rparr>"

definition windows_down :: world where
  "windows_down =
     \<lparr>windows = True, ssh_feed = sconst (answering []),
      local_feed = sconst (Failed (ascii ''powershell: command not found''))\<rparr>"

definition offline :: world where
  "offline =
     \<lparr>windows = False,
      ssh_feed = sconst ((answering [])\<lparr>first_connect := \<lparr>key_is_file = False, handshake_ok = False\<rparr>\<rparr>),
      local_feed = sconst TimeoutExpired\<rparr>"

section \<open>Properties of the health status\<close>

lemmas thresholds =
  CPU_TEMP_WARNING_def CPU_TEMP_CRITICAL_def GPU_TEMP_WARNING_def GPU_TEMP_CRITICAL_def

lemma get_status_error_iff:
  "get_status cpu gpu = ''error'' \<longleftrightarrow> cpu \<le> 0 \<or> gpu \<le> 0"
  by (simp add: get_status_def)

lemma get_status_critical_iff:
  "get_status cpu gpu = ''critical'' \<longleftrightarrow> 0 < cpu \<and> 0 < gpu \<and> (85 \<le> cpu \<or> 90 \<le> gpu)"
  by (auto simp: get_status_def thresholds)

lemma get_status_warning_iff:
  "get_status cpu gpu = ''warning'' \<longleftrightarrow>
     0 < cpu \<and> 0 < gpu \<and> cpu < 85 \<and> gpu < 90 \<and> (70 \<le> cpu \<or> 75 \<le> gpu)"
  by (auto simp: get_status_def thresholds)

lemma get_status_normal_iff:
  "get_status cpu gpu = ''normal'' \<longleftrightarrow> 0 < cpu \<and> 0 < gpu \<and> cpu < 70 \<and> gpu < 75"
  by (auto simp: get_status_def thresholds)

lemma get_status_cases:
  "get_status cpu gpu \<in> {''error'', ''critical'', ''warning'', ''normal''}"
  by (simp add: get_status_def)

text \<open>
  Claim C1. For every pair of readings the status is \<open>error\<close> when a reading is
  non-positive, whatever the thresholds say; otherwise \<open>critical\<close> when the CPU
  reading is at least 85 or the GPU reading at least 90; otherwise \<open>warning\<close> when
  the CPU reading is at least 70 or the GPU reading at least 75; otherwise
  \<open>normal\<close>. The critical comparison is inclusive: with a safe GPU reading
  (positive, below 90) the status at a CPU reading of exactly 85 is \<open>critical\<close>,
  and at a positive CPU reading below 85 it is not.
\<close>

theorem C1_get_status:
  "(cpu \<le> 0 \<or> gpu \<le> 0 \<longrightarrow> get_status cpu gpu = ''error'') \<and>
   (0 < cpu \<and> 0 < gpu \<and> (85 \<le> cpu \<or> 90 \<le> gpu) \<longrightarrow> get_status cpu gpu = ''critical'') \<and>
   (0 < cpu \<and> 0 < gpu \<and> cpu < 85 \<and> gpu < 90 \<and> (70 \<le> cpu \<or> 75 \<le> gpu)
      \<longrightarrow> get_status cpu gpu = ''warning'') \<and>
   (0 < cpu \<and> 0 < gpu \<and> cpu < 70 \<and> gpu < 75 \<longrightarrow> get_status cpu gpu = ''normal'') \<and>
   (0 < gpu \<and> gpu < 90 \<longrightarrow> get_status CPU_TEMP_CRITICAL gpu = ''critical'') \<and>
   (0 < gpu \<and> gpu < 90 \<and> 0 < cpu \<and> cpu < CPU_TEMP_CRITICAL
      \<longrightarrow> get_status cpu gpu \<noteq> ''critical'')"
proof -
  have e: "cpu \<le> 0 \<or> gpu \<le> 0 \<longrightarrow> get_status cpu gpu = ''error''"
    by (simp add: get_status_error_iff)
  have c: "0 < cpu \<and> 0 < gpu \<and> (85 \<le> cpu \<or> 90 \<le> gpu) \<longrightarrow> get_status cpu gpu = ''critical''"
    by (simp add: get_status_critical_iff)
  have w: "0 < cpu \<and> 0 < gpu \<and> cpu < 85 \<and> gpu < 90 \<and> (70 \<le> cpu \<or> 75 \<le> gpu)
      \<longrightarrow> get_status cpu gpu = ''warning''"
    by (simp add: get_status_warning_iff)
  have n: "0 < cpu \<and> 0 < gpu \<and> cpu < 70 \<and> gpu < 75 \<longrightarrow> get_status cpu gpu = ''normal''"
    by (simp add: get_status_normal_iff)
  have b1: "0 < gpu \<and> gpu < 90 \<longrightarrow> get_status CPU_TEMP_CRITICAL gpu = ''critical''"
    by (simp add: get_status_critical_iff CPU_TEMP_CRITICAL_def)
  have b2: "0 < gpu \<and> gpu < 90 \<and> 0 < cpu \<and> cpu < CPU_TEMP_CRITICAL
      \<longrightarrow> get_status cpu gpu \<noteq> ''critical''"
    by (simp add: get_status_critical_iff CPU_TEMP_CRITICAL_def)
  from e c w n b1 b2 show ?thesis by blast
qed

theorem C1_get_status_witness:
  "get_status 0 95 = ''error'' \<and> get_status 90 50 = ''critical'' \<and>
   get_status 72 50 = ''warning'' \<and> get_status 40 50 = ''normal'' \<and>
   get_status CPU_TEMP_CRITICAL 50 = ''critical'' \<and> get_status 84.9 50 \<noteq> ''critical''"
  using C1_get_status [of 0 95] C1_get_status [of 90 50] C1_get_status [of 72 50]
    C1_get_status [of 40 50] C1_get_status [of "84.9" 50]
  by (simp add: CPU_TEMP_CRITICAL_def)

section \<open>Properties of the readers\<close>

text \<open>Every reader returns the value it leaves stored for its own metric, and
  touches neither the other metric nor the throttle.\<close>

lemma connect_frame:
  "connect s c = (b, s') \<Longrightarrow>
     last_cpu_temp s' = last_cpu_temp s \<and> last_gpu_temp s' = last_gpu_temp s \<and>
     last_check_time s' = last_check_time s \<and> check_interval s' = check_interval s"
  by (auto simp: connect_def split: if_splits)

lemma execute_command_frame:
  "execute_command s cmd e = (r, s', tr) \<Longrightarrow>
     last_cpu_temp s' = last_cpu_temp s \<and> last_gpu_temp s' = last_gpu_temp s \<and>
     last_check_time s' = last_check_time s \<and> check_interval s' = check_interval s"
  by (auto simp: execute_command_def Let_def dest!: connect_frame
      split: if_splits prod.splits exec_outcome.splits)

lemma remote_call_frame:
  "remote_call s w cmd = (r, s', w') \<Longrightarrow>
     last_cpu_temp s' = last_cpu_temp s \<and> last_gpu_temp s' = last_gpu_temp s \<and>
     last_check_time s' = last_check_time s \<and> check_interval s' = check_interval s"
  by (auto simp: remote_call_def Let_def dest!: execute_command_frame split: prod.splits)

lemma cpu_finish_stored:
  "cpu_finish L out s w = (t, s', w') \<Longrightarrow>
     last_cpu_temp s' = t \<and> last_gpu_temp s' = last_gpu_temp s \<and>
     last_check_time s' = last_check_time s \<and> check_interval s' = check_interval s"
  by (auto simp: cpu_finish_def split: option.splits)

lemma get_windows_cpu_temperature_stored:
  "get_windows_cpu_temperature L s w = (t, s', w') \<Longrightarrow>
     last_cpu_temp s' = t \<and> last_gpu_temp s' = last_gpu_temp s \<and>
     last_check_time s' = last_check_time s \<and> check_interval s' = check_interval s"
  by (auto simp: get_windows_cpu_temperature_def Let_def split: prod.splits attempt.splits if_splits)

lemma get_cpu_temperature_stored:
  "get_cpu_temperature L s w = (t, s', w') \<Longrightarrow>
     last_cpu_temp s' = t \<and> last_gpu_temp s' = last_gpu_temp s \<and>
     last_check_time s' = last_check_time s \<and> check_interval s' = check_interval s"
  unfolding get_cpu_temperature_def Let_def
  by (auto dest!: get_windows_cpu_temperature_stored remote_call_frame cpu_finish_stored
      split: prod.splits if_splits)

lemma win_gpu_general_stored:
  "win_gpu_general L s w = (t, s', w') \<Longrightarrow>
     last_gpu_temp s' = t \<and> last_cpu_temp s' = last_cpu_temp s \<and>
     last_check_time s' = last_check_time s \<and> check_interval s' = check_interval s"
  by (auto simp: win_gpu_general_def Let_def split: prod.splits option.splits if_splits)

lemma get_windows_gpu_temperature_stored:
  "get_windows_gpu_temperature L s w = (t, s', w') \<Longrightarrow>
     last_gpu_temp s' = t \<and> last_cpu_temp s' = last_cpu_temp s \<and>
     last_check_time s' = last_check_time s \<and> check_interval s' = check_interval s"
  unfolding get_windows_gpu_temperature_def Let_def
  by (auto dest!: win_gpu_general_stored split: prod.splits option.splits if_splits)

lemma get_gpu_temperature_stored:
  "get_gpu_temperature L s w = (t, s', w') \<Longrightarrow>
     last_gpu_temp s' = t \<and> last_cpu_temp s' = last_cpu_temp s \<and>
     last_check_time s' = last_check_time s \<and> check_interval s' = check_interval s"
  unfolding get_gpu_temperature_def Let_def
  by (auto dest!: get_windows_gpu_temperature_stored remote_call_frame
      split: prod.splits option.splits if_splits)

section \<open>Properties of the throttle\<close>

lemma check_temperature_cached:
  "now - last_check_time s < check_interval s \<Longrightarrow>
   check_temperature L s w now =
     (\<lparr>cpu_temp = last_cpu_temp s, gpu_temp = last_gpu_temp s,
       status = get_status (last_cpu_temp s) (last_gpu_temp s), cached = True\<rparr>, s, w)"
  by (simp add: check_temperature_def)

lemma check_temperature_fresh:
  assumes "\<not> now - last_check_time s < check_interval s"
    and "get_cpu_temperature L (s\<lparr>last_check_time := now\<rparr>) w = (cpu, s1, w1)"
    and "get_gpu_temperature L s1 w1 = (gpu, s2, w2)"
  shows "check_temperature L s w now =
     (\<lparr>cpu_temp = cpu, gpu_temp = gpu, status = get_status cpu gpu, cached = False\<rparr>,
      s2\<lparr>check_interval :=
            (if get_status cpu gpu = ''critical'' then CRITICAL_CHECK_INTERVAL
             else if get_status cpu gpu = ''warning'' then WARNING_CHECK_INTERVAL
             else NORMAL_CHECK_INTERVAL)\<rparr>, w2)"
  using assms by (simp add: check_temperature_def Let_def)

lemma check_temperature_fresh_stored:
  assumes "\<not> now - last_check_time s < check_interval s"
    and "check_temperature L s w now = (r, s', w')"
  shows "last_cpu_temp s' = cpu_temp r \<and> last_gpu_temp s' = gpu_temp r \<and>
         last_check_time s' = now \<and> status r = get_status (cpu_temp r) (gpu_temp r) \<and>
         cached r = False \<and>
         check_interval s' =
           (if status r = ''critical'' then 1 else if status r = ''warning'' then 2 else 5)"
proof -
  obtain cpu s1 w1 where c: "get_cpu_temperature L (s\<lparr>last_check_time := now\<rparr>) w = (cpu, s1, w1)"
    by (metis prod_cases3)
  obtain gpu s2 w2 where g: "get_gpu_temperature L s1 w1 = (gpu, s2, w2)"
    by (metis prod_cases3)
  from get_cpu_temperature_stored [OF c] get_gpu_temperature_stored [OF g]
    check_temperature_fresh [OF assms(1) c g] assms(2)
  show ?thesis
    by (auto simp: CRITICAL_CHECK_INTERVAL_def WARNING_CHECK_INTERVAL_def
        NORMAL_CHECK_INTERVAL_def)
qed

lemma check_temperature_status:
  assumes "check_temperature L s w now = (r, s', w')"
  shows "status r = get_status (cpu_temp r) (gpu_temp r)"
proof (cases "now - last_check_time s < check_interval s")
  case True
  with assms show ?thesis by (auto simp: check_temperature_cached)
next
  case False
  from check_temperature_fresh_stored [OF False assms] show ?thesis by simp
qed

text \<open>
  Claim C4. A call of \<open>check_temperature\<close> at a time less than the current
  interval after the last probing call returns the stored readings with their
  status, marked cached, and changes neither the monitor nor the world (no
  command runs). Any other call probes the CPU reader and then the GPU reader,
  recomputes the status, records the time and sets the interval to 1 s for
  \<open>critical\<close>, 2 s for \<open>warning\<close> and 5 s for \<open>normal\<close> and \<open>error\<close>; every
  call within that interval of it then returns the very same sample, marked
  cached.
\<close>

theorem C4_check_temperature:
  "(now - last_check_time s < check_interval s \<longrightarrow>
      check_temperature L s w now =
        (\<lparr>cpu_temp = last_cpu_temp s, gpu_temp = last_gpu_temp s,
          status = get_status (last_cpu_temp s) (last_gpu_temp s), cached = True\<rparr>, s, w)) \<and>
   (\<not> now - last_check_time s < check_interval s \<longrightarrow>
      (case check_temperature L s w now of
         (r, s', w') \<Rightarrow>
           (case get_cpu_temperature L (s\<lparr>last_check_time := now\<rparr>) w of
              (cpu, s1, w1) \<Rightarrow>
                cpu_temp r = cpu \<and> gpu_temp r = fst (get_gpu_temperature L s1 w1)) \<and>
           status r = get_status (cpu_temp r) (gpu_temp r) \<and> cached r = False \<and>
           last_check_time s' = now \<and>
           check_interval s' =
             (if status r = ''critical'' then 1 else if status r = ''warning'' then 2 else 5) \<and>
           (status r = ''normal'' \<or> status r = ''error'' \<longrightarrow> check_interval s' = 5) \<and>
           (\<forall>now'. now' - now < check_interval s' \<longrightarrow>
              check_temperature L s' w' now' = (r\<lparr>cached := True\<rparr>, s', w'))))"
proof (intro conjI impI)
  assume "now - last_check_time s < check_interval s"
  then show "check_temperature L s w now =
        (\<lparr>cpu_temp = last_cpu_temp s, gpu_temp = last_gpu_temp s,
          status = get_status (last_cpu_temp s) (last_gpu_temp s), cached = True\<rparr>, s, w)"
    by (rule check_temperature_cached)
next
  assume fresh: "\<not> now - last_check_time s < check_interval s"
  obtain r s' w' where run: "check_temperature L s w now = (r, s', w')"
    by (metis prod_cases3)
  obtain cpu s1 w1 where c: "get_cpu_temperature L (s\<lparr>last_check_time := now\<rparr>) w = (cpu, s1, w1)"
    by (metis prod_cases3)
  obtain gpu s2 w2 where g: "get_gpu_temperature L s1 w1 = (gpu, s2, w2)"
    by (metis prod_cases3)
  note st = check_temperature_fresh_stored [OF fresh run]
  have probe: "cpu_temp r = cpu \<and> gpu_temp r = gpu"
    using check_temperature_fresh [OF fresh c g] run by auto
  have again: "check_temperature L s' w' now' = (r\<lparr>cached := True\<rparr>, s', w')"
    if "now' - now < check_interval s'" for now'
  proof -
    from that st have "now' - last_check_time s' < check_interval s'" by simp
    from check_temperature_cached [OF this, of L w'] st show ?thesis by simp
  qed
  from st probe again c g run
  show "case check_temperature L s w now of
         (r, s', w') \<Rightarrow>
           (case get_cpu_temperature L (s\<lparr>last_check_time := now\<rparr>) w of
              (cpu, s1, w1) \<Rightarrow>
                cpu_temp r = cpu \<and> gpu_temp r = fst (get_gpu_temperature L s1 w1)) \<and>
           status r = get_status (cpu_temp r) (gpu_temp r) \<and> cached r = False \<and>
           last_check_time s' = now \<and>
           check_interval s' =
             (if status r = ''critical'' then 1 else if status r = ''warning'' then 2 else 5) \<and>
           (status r = ''normal'' \<or> status r = ''error'' \<longrightarrow> check_interval s' = 5) \<and>
           (\<forall>now'. now' - now < check_interval s' \<longrightarrow>
              check_temperature L s' w' now' = (r\<lparr>cached := True\<rparr>, s', w'))"
    by auto
qed

section \<open>Closed examples of the governor\<close>

lemma decode_output_Nil: "decode_output [] = []"
  by (simp add: decode_output_def ENCODINGS_def)

lemma decode_output_ascii_digits:
  "decode_output (bytes_of ''100000'') = ascii ''100000''"
  "decode_output (bytes_of ''50'') = ascii ''50''"
  "decode_output (bytes_of ''0'') = ascii ''0''"
  by (simp_all add: decode_output_def ENCODINGS_def decode_def bytes_of_def ascii_def)

lemmas fixture_defs =
  linux_world_def the_monitor_def init_monitor_def answering_def accepting_def
  plain_lib_def decimal_def

lemmas reader_defs =
  get_cpu_temperature_def get_gpu_temperature_def remote_call_def execute_command_def
  connect_def cpu_finish_def cpu_parse_def gpu_nvidia_def py_strip_def is_space_def
  py_isdigit_def is_digit_def

lemma example_hot_check:
  "check_temperature plain_lib the_monitor (linux_world ''100000'' ''50'') 1000 =
     (\<lparr>cpu_temp = 100, gpu_temp = 50, status = ''critical'', cached = False\<rparr>,
      the_monitor\<lparr>is_connected := True, last_check_time := 1000, check_interval := 1,
        last_cpu_temp := 100, last_gpu_temp := 50\<rparr>,
      \<lparr>windows = False, ssh_feed = sconst (answering []), local_feed = sconst TimeoutExpired\<rparr>)"
  by (simp add: check_temperature_def reader_defs fixture_defs decode_output_Nil
      decode_output_ascii_digits ascii_def get_status_def thresholds
      NORMAL_CHECK_INTERVAL_def CRITICAL_CHECK_INTERVAL_def)

lemma example_fault_check:
  "check_temperature plain_lib the_monitor (linux_world ''0'' ''50'') 1000 =
     (\<lparr>cpu_temp = 0, gpu_temp = 50, status = ''error'', cached = False\<rparr>,
      the_monitor\<lparr>is_connected := True, last_check_time := 1000, check_interval := 5,
        last_cpu_temp := 0, last_gpu_temp := 50\<rparr>,
      \<lparr>windows = False, ssh_feed = sconst (answering []), local_feed = sconst TimeoutExpired\<rparr>)"
  by (simp add: check_temperature_def reader_defs fixture_defs decode_output_Nil
      decode_output_ascii_digits ascii_def get_status_def thresholds
      NORMAL_CHECK_INTERVAL_def CRITICAL_CHECK_INTERVAL_def)

theorem C4_check_temperature_witness:
  "(case check_temperature plain_lib the_monitor (linux_world ''100000'' ''50'') 1000 of
      (r, s', w') \<Rightarrow>
        r = \<lparr>cpu_temp = 100, gpu_temp = 50, status = ''critical'', cached = False\<rparr> \<and>
        check_interval s' = 1 \<and>
        check_temperature plain_lib s' w' 1000.5 = (r\<lparr>cached := True\<rparr>, s', w') \<and>
        check_temperature plain_lib s' w' 1000.5 =
          (\<lparr>cpu_temp = last_cpu_temp s', gpu_temp = last_gpu_temp s',
            status = get_status (last_cpu_temp s') (last_gpu_temp s'), cached = True\<rparr>, s', w'))"
proof -
  let ?w = "linux_world ''100000'' ''50''"
  have fresh: "\<not> 1000 - last_check_time the_monitor < check_interval the_monitor"
    by (simp add: fixture_defs NORMAL_CHECK_INTERVAL_def)
  obtain r s' w' where run: "check_temperature plain_lib the_monitor ?w 1000 = (r, s', w')"
    by (metis prod_cases3)
  from run example_hot_check have r: "r = \<lparr>cpu_temp = 100, gpu_temp = 50, status = ''critical'', cached = False\<rparr>"
    and i: "check_interval s' = 1" and t: "last_check_time s' = 1000"
    by auto
  have within: "1000.5 - last_check_time s' < check_interval s'"
    by (simp add: i t)
  from C4_check_temperature [where now = 1000 and s = the_monitor and L = plain_lib and w = ?w] fresh run
  have "check_temperature plain_lib s' w' 1000.5 = (r\<lparr>cached := True\<rparr>, s', w')"
    by (auto simp: i)
  moreover from C4_check_temperature [where now = "1000.5" and s = s' and L = plain_lib and w = w'] within
  have "check_temperature plain_lib s' w' 1000.5 =
          (\<lparr>cpu_temp = last_cpu_temp s', gpu_temp = last_gpu_temp s',
            status = get_status (last_cpu_temp s') (last_gpu_temp s'), cached = True\<rparr>, s', w')"
    by blast
  ultimately show ?thesis using run r i by simp
qed

text \<open>
  Claim C10. In every dictionary \<open>check_temperature\<close> returns, cached or fresh, the
  status is \<open>_get_status\<close> of the two temperatures of that same dictionary; the
  cached branch is the one taken inside the interval, and it reports the stored
  temperatures.
\<close>

theorem C10_status_consistent:
  "(case check_temperature L s w now of
      (r, s', w') \<Rightarrow>
        status r = get_status (cpu_temp r) (gpu_temp r) \<and>
        (cached r \<longleftrightarrow> now - last_check_time s < check_interval s) \<and>
        (cached r \<longrightarrow> cpu_temp r = last_cpu_temp s \<and> gpu_temp r = last_gpu_temp s))"
proof (cases "now - last_check_time s < check_interval s")
  case True
  then show ?thesis by (simp add: check_temperature_cached)
next
  case False
  obtain r s' w' where run: "check_temperature L s w now = (r, s', w')"
    by (metis prod_cases3)
  from check_temperature_fresh_stored [OF False run] run False show ?thesis by simp
qed

theorem C10_status_consistent_witness:
  "(case check_temperature plain_lib the_monitor (linux_world ''100000'' ''50'') 1 of
      (r, s', w') \<Rightarrow>
        cached r \<and> cpu_temp r = 0 \<and> gpu_temp r = 0 \<and> status r = ''error'' \<and>
        status r = get_status (cpu_temp r) (gpu_temp r))"
  using C10_status_consistent [where L = plain_lib and s = the_monitor and w = "linux_world ''100000'' ''50''" and now = 1]
  by (simp add: check_temperature_def fixture_defs NORMAL_CHECK_INTERVAL_def get_status_def)


section \<open>Properties of the adaptive delay and of the pause\<close>

lemma delay_of_eq:
  "delay_of info =
     (if status info = ''error'' then 1
      else 0.5 * max (interpolation_factor (cpu_temp info) 70 85)
                     (interpolation_factor (gpu_temp info) 75 90))"
  by (simp add: delay_of_def interpolation_factor_def thresholds Let_def not_le not_less)

lemma interpolation_factor_ge_1:
  "warning < critical \<Longrightarrow> 1 \<le> interpolation_factor reading warning critical"
  by (simp add: interpolation_factor_def)

lemma interpolation_factor_le_5_iff:
  "warning < critical \<Longrightarrow>
   interpolation_factor reading warning critical \<le> 5 \<longleftrightarrow> reading \<le> critical"
  by (auto simp: interpolation_factor_def field_simps)

text \<open>
  Claim C2, as the code has it. On the sample \<open>check_temperature\<close> gives it,
  \<open>calculate_adaptive_delay\<close> returns 1.0 s when the status is \<open>error\<close>, whatever
  the readings; otherwise 0.5 s times the larger of the two per-metric factors
  (CPU between 70 and 85, GPU between 75 and 90). The multiplier is never below
  1; nothing clamps it from above: it stays within 5 exactly when neither reading
  exceeds its critical threshold.
\<close>

theorem C2_adaptive_delay:
  "(case check_temperature L s w now of
      (info, s', w') \<Rightarrow>
        calculate_adaptive_delay L s w now =
          ((if status info = ''error'' then 1.0
            else 0.5 * max (interpolation_factor (cpu_temp info) 70 85)
                           (interpolation_factor (gpu_temp info) 75 90)), s', w') \<and>
        1 \<le> max (interpolation_factor (cpu_temp info) 70 85)
                 (interpolation_factor (gpu_temp info) 75 90) \<and>
        (max (interpolation_factor (cpu_temp info) 70 85)
             (interpolation_factor (gpu_temp info) 75 90) \<le> 5
           \<longleftrightarrow> cpu_temp info \<le> 85 \<and> gpu_temp info \<le> 90))"
proof -
  obtain info s' w' where run: "check_temperature L s w now = (info, s', w')"
    by (metis prod_cases3)
  have d: "calculate_adaptive_delay L s w now = (delay_of info, s', w')"
    by (simp add: calculate_adaptive_delay_def run)
  have lo: "1 \<le> max (interpolation_factor (cpu_temp info) 70 85)
                 (interpolation_factor (gpu_temp info) 75 90)"
    using interpolation_factor_ge_1 [of 70 85 "cpu_temp info"] by (simp add: le_max_iff_disj)
  have hi: "max (interpolation_factor (cpu_temp info) 70 85)
             (interpolation_factor (gpu_temp info) 75 90) \<le> 5
           \<longleftrightarrow> cpu_temp info \<le> 85 \<and> gpu_temp info \<le> 90"
    using interpolation_factor_le_5_iff [of 70 85 "cpu_temp info"]
      interpolation_factor_le_5_iff [of 75 90 "gpu_temp info"]
    by simp
  from d lo hi show ?thesis
    by (simp add: run delay_of_eq)
qed

theorem C2_adaptive_delay_witness:
  "calculate_adaptive_delay plain_lib the_monitor (linux_world ''100000'' ''50'') 1000 =
     (0.5 * 9, 
      the_monitor\<lparr>is_connected := True, last_check_time := 1000, check_interval := 1,
        last_cpu_temp := 100, last_gpu_temp := 50\<rparr>,
      \<lparr>windows = False, ssh_feed = sconst (answering []), local_feed = sconst TimeoutExpired\<rparr>) \<and>
   fst (calculate_adaptive_delay plain_lib the_monitor (linux_world ''0'' ''50'') 1000) = 1"
  using C2_adaptive_delay [where L = plain_lib and s = the_monitor
      and w = "linux_world ''100000'' ''50''" and now = 1000]
    C2_adaptive_delay [where L = plain_lib and s = the_monitor
      and w = "linux_world ''0'' ''50''" and now = 1000]
  by (simp add: example_hot_check example_fault_check interpolation_factor_def)

text \<open>The multiplier is not confined to the range from 1 to 5: a CPU reading of
  100 with a GPU reading of 50 gives 4.5 s, nine times the base delay.\<close>

theorem C2_clamp_counterexample:
  "\<not> (\<forall>L s w now. \<exists>m. 1 \<le> m \<and> m \<le> 5 \<and>
        (status (fst (check_temperature L s w now)) \<noteq> ''error'' \<longrightarrow>
           fst (calculate_adaptive_delay L s w now) = 0.5 * m))"
proof
  assume "\<forall>L s w now. \<exists>m. 1 \<le> m \<and> m \<le> 5 \<and>
        (status (fst (check_temperature L s w now)) \<noteq> ''error'' \<longrightarrow>
           fst (calculate_adaptive_delay L s w now) = 0.5 * m)"
  then obtain m :: real where m: "1 \<le> m" "m \<le> 5"
    "status (fst (check_temperature plain_lib the_monitor (linux_world ''100000'' ''50'') 1000))
        \<noteq> ''error'' \<longrightarrow>
     fst (calculate_adaptive_delay plain_lib the_monitor (linux_world ''100000'' ''50'') 1000)
       = 0.5 * m"
    by blast
  have "fst (calculate_adaptive_delay plain_lib the_monitor (linux_world ''100000'' ''50'') 1000)
          = 0.5 * 9"
    by (simp add: calculate_adaptive_delay_def example_hot_check delay_of_eq
        interpolation_factor_def)
  with m show False by (simp add: example_hot_check)
qed

lemma fmt_1f_plain_lib: "fmt_1f plain_lib x = []"
  by (simp add: plain_lib_def)

lemma should_pause_processing_eq:
  "check_temperature L s w now = (info, s', w') \<Longrightarrow>
   should_pause_processing L s w now =
     ((status info = ''critical'',
       if status info = ''critical'' then msg_critical_temperature @ readings_text L info
       else if status info = ''error'' then msg_measurement_error @ readings_text L info
       else []), s', w')"
  by (simp add: should_pause_processing_def)

text \<open>
  Claim C5. \<open>should_pause_processing\<close> answers true exactly when the status of the
  checked sample is \<open>critical\<close>. The status is \<open>error\<close> exactly when a reading
  of the sample is non-positive, and then the answer is false with a non-empty
  reason; for \<open>normal\<close> and \<open>warning\<close> the answer is false with the empty reason.
  The monitor and the world are left as \<open>check_temperature\<close> leaves them.
\<close>

theorem C5_should_pause:
  "(case check_temperature L s w now of
      (info, s', w') \<Rightarrow>
        (case should_pause_processing L s w now of
           ((pause, reason), s'', w'') \<Rightarrow>
             (pause \<longleftrightarrow> status info = ''critical'') \<and>
             (status info = ''error'' \<longleftrightarrow> cpu_temp info \<le> 0 \<or> gpu_temp info \<le> 0) \<and>
             (cpu_temp info \<le> 0 \<or> gpu_temp info \<le> 0 \<longrightarrow> \<not> pause \<and> reason \<noteq> []) \<and>
             (status info = ''normal'' \<or> status info = ''warning'' \<longrightarrow> \<not> pause \<and> reason = []) \<and>
             (pause \<longrightarrow> reason \<noteq> []) \<and>
             s'' = s' \<and> w'' = w'))"
proof -
  obtain info s' w' where run: "check_temperature L s w now = (info, s', w')"
    by (metis prod_cases3)
  have st: "status info = get_status (cpu_temp info) (gpu_temp info)"
    by (rule check_temperature_status [OF run])
  have e: "status info = ''error'' \<longleftrightarrow> cpu_temp info \<le> 0 \<or> gpu_temp info \<le> 0"
    by (simp add: st get_status_error_iff)
  show ?thesis
    using e by (auto simp: run should_pause_processing_eq [OF run]
        msg_critical_temperature_def msg_measurement_error_def)
qed

theorem C5_should_pause_witness:
  "fst (should_pause_processing plain_lib the_monitor (linux_world ''100000'' ''50'') 1000) =
     (True, msg_critical_temperature @ [176, 67, 44, 32, 71, 80, 85, 32, 176, 67]) \<and>
   fst (should_pause_processing plain_lib the_monitor (linux_world ''0'' ''50'') 1000) =
     (False, msg_measurement_error @ [176, 67, 44, 32, 71, 80, 85, 32, 176, 67])"
  using C5_should_pause [where L = plain_lib and s = the_monitor
      and w = "linux_world ''100000'' ''50''" and now = 1000]
    C5_should_pause [where L = plain_lib and s = the_monitor
      and w = "linux_world ''0'' ''50''" and now = 1000]
  by (simp add: example_hot_check example_fault_check should_pause_processing_def
      readings_text_def fmt_1f_plain_lib)

section \<open>Properties of the command channel\<close>

lemma connect_fst_cong:
  "ssh_host s' = ssh_host s \<Longrightarrow> ssh_user s' = ssh_user s \<Longrightarrow>
   ssh_password s' = ssh_password s \<Longrightarrow> fst (connect s' c) = fst (connect s c)"
  by (simp add: connect_def)

lemma connect_config:
  "ssh_host (snd (connect s c)) = ssh_host s \<and> ssh_user (snd (connect s c)) = ssh_user s \<and>
   ssh_password (snd (connect s c)) = ssh_password s"
  by (simp add: connect_def)

lemma reconnect_same_answer:
  "fst (connect ((if is_connected s then s else snd (connect s c))\<lparr>is_connected := False\<rparr>) c')
     = fst (connect s c')"
  by (rule connect_fst_cong) (simp_all add: connect_config)

lemma execute_command_unfold:
  "execute_command s command e =
     (let s1 = (if is_connected s then s else snd (connect s (first_connect e)));
          pre = (if is_connected s then [] else [Connect]);
          s3 = snd (connect (s1\<lparr>is_connected := False\<rparr>) (reconnect e))
      in if \<not> (is_connected s \<or> fst (connect s (first_connect e)))
         then (([], msg_no_connection), s1, pre)
         else
           (case first_exec e of
              Returned stdout_data stderr_data \<Rightarrow>
                ((decode_output stdout_data, decode_output stderr_data), s1, pre @ [Exec])
            | Raised msg \<Rightarrow>
                if transport_active e
                then (([], msg_error @ msg), s1, pre @ [Exec, TransportCheck])
                else if fst (connect s (reconnect e)) then
                  (case retry_exec e of
                     Returned stdout_data stderr_data \<Rightarrow>
                       ((decode_latin1_replace stdout_data, decode_latin1_replace stderr_data),
                        s3, pre @ [Exec, TransportCheck, Connect, Exec])
                   | Raised msg2 \<Rightarrow>
                       (([], msg_error_after_reconnect @ msg2), s3,
                        pre @ [Exec, TransportCheck, Connect, Exec]))
                else (([], msg_error @ msg), s3, pre @ [Exec, TransportCheck, Connect])))"
proof -
  have latin: "(if d \<noteq> [] then decode_latin1_replace d else []) = decode_latin1_replace d" for d
    by (simp add: decode_latin1_replace_def)
  show ?thesis
    using reconnect_same_answer [of s "first_connect e" "reconnect e"]
    by (cases "is_connected s")
      (auto simp: execute_command_def Let_def split_beta latin
        split: exec_outcome.splits)
qed

text \<open>
  Claim C7. One call of \<open>_execute_command\<close> runs \<open>exec_command\<close> at most twice and
  calls \<open>connect\<close> at most once after the first run. When the first run raises:
  with the transport alive the error is returned as it is and nothing else is
  called; with the transport dead \<open>connect\<close> is called once, and if it fails the
  first error is returned; if it succeeds the command runs once more, and a
  second exception is returned as the error after reconnecting.
\<close>

theorem C7_reconnect_once:
  "(case execute_command s command e of
      (r, s', tr) \<Rightarrow>
        count_list tr Exec \<le> 2 \<and>
        count_list (dropWhile (\<lambda>x. x \<noteq> Exec) tr) Connect \<le> 1 \<and>
        (\<forall>msg. (is_connected s \<or> fst (connect s (first_connect e))) \<and> first_exec e = Raised msg \<longrightarrow>
           (transport_active e \<longrightarrow>
              r = ([], msg_error @ msg) \<and>
              dropWhile (\<lambda>x. x \<noteq> Exec) tr = [Exec, TransportCheck]) \<and>
           (\<not> transport_active e \<and> \<not> fst (connect s (reconnect e)) \<longrightarrow>
              r = ([], msg_error @ msg) \<and>
              dropWhile (\<lambda>x. x \<noteq> Exec) tr = [Exec, TransportCheck, Connect]) \<and>
           (\<not> transport_active e \<and> fst (connect s (reconnect e)) \<longrightarrow>
              dropWhile (\<lambda>x. x \<noteq> Exec) tr = [Exec, TransportCheck, Connect, Exec] \<and>
              (\<forall>msg2. retry_exec e = Raised msg2 \<longrightarrow>
                 r = ([], msg_error_after_reconnect @ msg2)) \<and>
              (\<forall>out err. retry_exec e = Returned out err \<longrightarrow>
                 r = (decode_latin1_replace out, decode_latin1_replace err)))))"
  by (cases "is_connected s")
    (auto simp: execute_command_unfold [of s command e] Let_def split: exec_outcome.splits)


lemmas channel_fixture_defs =
  linux_world_def the_monitor_def init_monitor_def answering_def accepting_def
  plain_lib_def decimal_def dropped_def

lemma example_retry_fails:
  "execute_command (the_monitor\<lparr>is_connected := True\<rparr>) cmd_nvidia_smi
     (dropped\<lparr>retry_exec := Raised (ascii ''Timeout'')\<rparr>) =
     (([], msg_error_after_reconnect @ ascii ''Timeout''), the_monitor\<lparr>is_connected := True\<rparr>,
      [Exec, TransportCheck, Connect, Exec])"
  by (simp add: execute_command_def connect_def channel_fixture_defs ascii_def)

lemma example_transport_alive:
  "execute_command (the_monitor\<lparr>is_connected := True\<rparr>) cmd_nvidia_smi
     (dropped\<lparr>transport_active := True\<rparr>) =
     (([], msg_error @ ascii ''Socket is closed''), the_monitor\<lparr>is_connected := True\<rparr>,
      [Exec, TransportCheck])"
  by (simp add: execute_command_def connect_def channel_fixture_defs ascii_def)

theorem C7_reconnect_once_witness:
  "execute_command (the_monitor\<lparr>is_connected := True\<rparr>) cmd_nvidia_smi
     (dropped\<lparr>retry_exec := Raised (ascii ''Timeout'')\<rparr>) =
     (([], msg_error_after_reconnect @ ascii ''Timeout''), the_monitor\<lparr>is_connected := True\<rparr>,
      [Exec, TransportCheck, Connect, Exec]) \<and>
   execute_command (the_monitor\<lparr>is_connected := True\<rparr>) cmd_nvidia_smi
     (dropped\<lparr>transport_active := True\<rparr>) =
     (([], msg_error @ ascii ''Socket is closed''), the_monitor\<lparr>is_connected := True\<rparr>,
      [Exec, TransportCheck])"
  using C7_reconnect_once [where s = "the_monitor\<lparr>is_connected := True\<rparr>"
      and command = cmd_nvidia_smi and e = "dropped\<lparr>retry_exec := Raised (ascii ''Timeout'')\<rparr>"]
    C7_reconnect_once [where s = "the_monitor\<lparr>is_connected := True\<rparr>"
      and command = cmd_nvidia_smi and e = "dropped\<lparr>transport_active := True\<rparr>"]
  by (simp add: example_retry_fails example_transport_alive)

subsection \<open>Decoding\<close>

lemma utf8_Nil_iff: "utf8 bs = Some [] \<longleftrightarrow> bs = []"
  by (cases bs) (auto split: list.splits if_splits)

lemma cp1251_Nil_iff: "cp1251 bs = Some [] \<longleftrightarrow> bs = []"
  by (cases bs) (auto split: option.splits)

lemma decode_output_chain:
  "decode_output data =
     (case decode Utf8 data of
        Some str \<Rightarrow> str
      | None \<Rightarrow>
          (case decode Cp1251 data of
             Some str \<Rightarrow> str
           | None \<Rightarrow> the (decode Latin1 data)))"
  by (auto simp: decode_output_def ENCODINGS_def decode_def decode_latin1_replace_def
      utf8_Nil_iff cp1251_Nil_iff split: option.splits)

lemma execute_local_command_failure:
  "execute_local_command command TimeoutExpired = ([], msg_timeout)"
  "execute_local_command command (Failed msg) = ([], msg_error @ msg)"
  "execute_local_command command (Completed out err) = (decode_output out, decode_output err)"
  by (simp_all add: execute_local_command_def)

text \<open>
  Claim C8, evaluated where the code leaves it. After a reconnect the retry decodes
  with Latin-1 alone, although the comment there promises the decoding of the first
  run: the octets D0 BF, which the first run decodes as UTF-8 to U+043F, come back
  from the retry as the two characters U+00D0 U+00BF.
\<close>

theorem C8_retry_skips_encodings:
  "fst (execute_command (the_monitor\<lparr>is_connected := True\<rparr>) cmd_nvidia_smi dropped)
     = ([208, 191], []) \<and>
   decode_output [0xD0, 0xBF] = [1087] \<and>
   fst (execute_command (the_monitor\<lparr>is_connected := True\<rparr>) cmd_nvidia_smi
          (dropped\<lparr>first_exec := Returned [0xD0, 0xBF] []\<rparr>))
     = ([1087], [])"
  by (simp add: execute_command_def connect_def channel_fixture_defs ascii_def
      decode_latin1_replace_def decode_output_def ENCODINGS_def decode_def cont_def)

section \<open>Properties of the fallback chains\<close>

lemma cpu_finish_cases:
  "cpu_finish L out s w = (t, s', w') \<Longrightarrow>
     w' = w \<and> t = last_cpu_temp s' \<and>
     (cpu_parse L out = None \<longrightarrow> t = last_cpu_temp s) \<and>
     (last_cpu_temp s' \<noteq> last_cpu_temp s \<longrightarrow> cpu_parse L out = Some t)"
  by (auto simp: cpu_finish_def split: option.splits)

lemma linux_cpu_last_known:
  assumes "\<not> windows w"
    and "remote_call s w cmd_thermal_zone = (r1, s1, w1)"
    and "remote_call s1 w1 cmd_sensors = (r2, s2, w2)"
    and "get_cpu_temperature L s w = (t, s', w')"
  shows "t = last_cpu_temp s' \<and>
     ((snd r1 \<noteq> [] \<or> cpu_parse L (fst r1) = None) \<and>
      (snd r2 \<noteq> [] \<or> cpu_parse L (fst r2) = None) \<longrightarrow> t = last_cpu_temp s) \<and>
     (last_cpu_temp s' \<noteq> last_cpu_temp s \<longrightarrow>
        cpu_parse L (fst r1) = Some t \<or> cpu_parse L (fst r2) = Some t)"
proof -
  note f1 = remote_call_frame [OF assms(2)]
  note f2 = remote_call_frame [OF assms(3)]
  obtain o1 e1 where r1: "r1 = (o1, e1)" by (cases r1)
  obtain o2 e2 where r2: "r2 = (o2, e2)" by (cases r2)
  show ?thesis
  proof (cases "e1 = []")
    case True
    with assms r1 have "cpu_finish L o1 s1 w1 = (t, s', w')"
      by (simp add: get_cpu_temperature_def)
    from cpu_finish_cases [OF this] f1 True r1 show ?thesis by auto
  next
    case False
    show ?thesis
    proof (cases "e2 = []")
      case True
      with assms r1 r2 False have "cpu_finish L o2 s2 w2 = (t, s', w')"
        by (simp add: get_cpu_temperature_def)
      from cpu_finish_cases [OF this] f1 f2 True False r1 r2 show ?thesis by auto
    next
      case e2: False
      with assms r1 r2 False have "t = last_cpu_temp s2" "s' = s2"
        by (auto simp: get_cpu_temperature_def)
      with f1 f2 e2 False r1 r2 show ?thesis by simp
    qed
  qed
qed

lemma linux_gpu_last_known:
  assumes "\<not> windows w"
    and "remote_call s w cmd_nvidia_smi = (r1, s1, w1)"
    and "remote_call s1 w1 cmd_rocm_smi = (r2, s2, w2)"
    and "remote_call s2 w2 cmd_vulkaninfo = (r3, s3, w3)"
    and "get_gpu_temperature L s w = (t, s', w')"
  shows "t = last_gpu_temp s' \<and>
     (gpu_nvidia L r1 = None \<and> gpu_rocm L r2 = None \<and> gpu_vulkan L r3 = None
        \<longrightarrow> t = last_gpu_temp s) \<and>
     (last_gpu_temp s' \<noteq> last_gpu_temp s \<longrightarrow>
        gpu_nvidia L r1 = Some t \<or> gpu_rocm L r2 = Some t \<or> gpu_vulkan L r3 = Some t)"
  using assms remote_call_frame [OF assms(2)] remote_call_frame [OF assms(3)]
    remote_call_frame [OF assms(4)]
  by (auto simp: get_gpu_temperature_def split: option.splits)

lemma local_call_eq:
  "local_call w command =
     (execute_local_command command (shd (local_feed w)), w\<lparr>local_feed := stl (local_feed w)\<rparr>)"
  by (simp add: local_call_def)

lemma windows_cpu_last_known:
  assumes "windows w"
    and "a1 = win_cpu_wmi L (execute_local_command cmd_wmi_thermal_zone (local_feed w !! 0))"
    and "a2 = win_cpu_cim L (execute_local_command cmd_cim_thermal_zone (local_feed w !! 1))"
    and "a3 = win_cpu_wmic L (execute_local_command cmd_wmic (local_feed w !! 2))"
    and "get_cpu_temperature L s w = (t, s', w')"
  shows "t = last_cpu_temp s' \<and>
     (a1 \<in> {Nothing, Raises} \<and> a2 \<in> {Nothing, Raises} \<and> a3 \<in> {Nothing, Raises} \<and>
      0 < last_cpu_temp s \<longrightarrow> t = last_cpu_temp s) \<and>
     (a1 = Nothing \<and> a2 = Nothing \<and> a3 = Nothing \<and> last_cpu_temp s \<le> 0 \<longrightarrow> t = 35) \<and>
     (last_cpu_temp s' \<noteq> last_cpu_temp s \<longrightarrow>
        a1 = Got t \<or> a2 = Got t \<or> a3 = Got t \<or> (last_cpu_temp s \<le> 0 \<and> t = 35))"
proof -
  have n: "local_feed w !! 1 = shd (stl (local_feed w))"
    "local_feed w !! 2 = shd (stl (stl (local_feed w)))"
    by (simp_all add: eval_nat_numeral)
  show ?thesis
    using assms(1,5) unfolding assms(2-4)
    by (auto simp: get_cpu_temperature_def get_windows_cpu_temperature_def local_call_eq n
        split: if_splits attempt.splits)
qed

lemma windows_gpu_last_known:
  assumes "windows w"
    and "amd = win_gpu_is_amd (execute_local_command cmd_amd_detect (local_feed w !! 0))"
    and "a1 = win_gpu_wmi L (execute_local_command cmd_amd_thermal_zone (local_feed w !! 1))"
    and "a2 = win_gpu_utility L (execute_local_command cmd_amdgpu_utility (local_feed w !! 2))"
    and "a3 = win_gpu_wmic L (execute_local_command cmd_wmic (local_feed w !! (if amd then 4 else 1)))"
    and "get_gpu_temperature L s w = (t, s', w')"
  shows "t = last_gpu_temp s' \<and>
     ((amd \<longrightarrow> a1 = None \<and> a2 = None) \<and> a3 = None \<and> 0 < last_gpu_temp s
        \<longrightarrow> t = last_gpu_temp s) \<and>
     ((amd \<longrightarrow> a1 = None \<and> a2 = None) \<and> a3 = None \<and> last_gpu_temp s \<le> 0 \<longrightarrow> t = 60) \<and>
     (last_gpu_temp s' \<noteq> last_gpu_temp s \<longrightarrow>
        (amd \<and> (a1 = Some t \<or> a2 = Some t)) \<or> a3 = Some t \<or> (last_gpu_temp s \<le> 0 \<and> t = 60))"
proof -
  have n: "local_feed w !! 1 = shd (stl (local_feed w))"
    "local_feed w !! 2 = shd (stl (stl (local_feed w)))"
    "local_feed w !! 4 = shd (stl (stl (stl (stl (local_feed w)))))"
    by (simp_all add: eval_nat_numeral)
  show ?thesis
  proof (cases amd)
    case True
    with assms(2) have d: "win_gpu_is_amd (execute_local_command cmd_amd_detect (shd (local_feed w)))"
      by simp
    show ?thesis
      using assms(1,6) True d unfolding assms(3-5)
      by (auto simp: get_gpu_temperature_def get_windows_gpu_temperature_def
          win_gpu_general_def local_call_eq n split: if_splits option.splits)
  next
    case False
    with assms(2) have d: "\<not> win_gpu_is_amd (execute_local_command cmd_amd_detect (shd (local_feed w)))"
      by simp
    show ?thesis
      using assms(1,6) False d unfolding assms(3-5)
      by (auto simp: get_gpu_temperature_def get_windows_gpu_temperature_def
          win_gpu_general_def local_call_eq n split: if_splits option.splits)
  qed
qed


text \<open>
  Claim C6, as the code has it. Each reader returns the value it leaves stored. Off
  Windows, when no command of the chain yields a reading that parses, the reader
  returns the stored value and leaves it as it was, and the stored value changes
  only to a reading parsed from a command's output. On Windows the same holds
  while the stored value is positive; while it is not, and every query ends
  without a value and without an exception, the reader stores and returns a
  placeholder, 35 for the CPU and 60 for the GPU.
\<close>

theorem C6_last_known_value:
  "(\<not> windows w \<longrightarrow>
      (case remote_call s w cmd_thermal_zone of
         (r1, s1, w1) \<Rightarrow>
           (case remote_call s1 w1 cmd_sensors of
              (r2, s2, w2) \<Rightarrow>
                (case get_cpu_temperature L s w of
                   (t, s', w') \<Rightarrow>
                     t = last_cpu_temp s' \<and>
                     ((snd r1 \<noteq> [] \<or> cpu_parse L (fst r1) = None) \<and>
                      (snd r2 \<noteq> [] \<or> cpu_parse L (fst r2) = None)
                        \<longrightarrow> t = last_cpu_temp s) \<and>
                     (last_cpu_temp s' \<noteq> last_cpu_temp s \<longrightarrow>
                        cpu_parse L (fst r1) = Some t \<or> cpu_parse L (fst r2) = Some t)))) \<and>
      (case remote_call s w cmd_nvidia_smi of
         (r1, s1, w1) \<Rightarrow>
           (case remote_call s1 w1 cmd_rocm_smi of
              (r2, s2, w2) \<Rightarrow>
                (case remote_call s2 w2 cmd_vulkaninfo of
                   (r3, s3, w3) \<Rightarrow>
                     (case get_gpu_temperature L s w of
                        (t, s', w') \<Rightarrow>
                          t = last_gpu_temp s' \<and>
                          (gpu_nvidia L r1 = None \<and> gpu_rocm L r2 = None \<and> gpu_vulkan L r3 = None
                             \<longrightarrow> t = last_gpu_temp s) \<and>
                          (last_gpu_temp s' \<noteq> last_gpu_temp s \<longrightarrow>
                             gpu_nvidia L r1 = Some t \<or> gpu_rocm L r2 = Some t \<or>
                             gpu_vulkan L r3 = Some t)))))) \<and>
   (windows w \<and>
    a1 = win_cpu_wmi L (execute_local_command cmd_wmi_thermal_zone (local_feed w !! 0)) \<and>
    a2 = win_cpu_cim L (execute_local_command cmd_cim_thermal_zone (local_feed w !! 1)) \<and>
    a3 = win_cpu_wmic L (execute_local_command cmd_wmic (local_feed w !! 2)) \<longrightarrow>
      (case get_cpu_temperature L s w of
         (t, s', w') \<Rightarrow>
           t = last_cpu_temp s' \<and>
           (a1 \<in> {Nothing, Raises} \<and> a2 \<in> {Nothing, Raises} \<and> a3 \<in> {Nothing, Raises} \<and>
            0 < last_cpu_temp s \<longrightarrow> t = last_cpu_temp s) \<and>
           (a1 = Nothing \<and> a2 = Nothing \<and> a3 = Nothing \<and> last_cpu_temp s \<le> 0 \<longrightarrow> t = 35) \<and>
           (last_cpu_temp s' \<noteq> last_cpu_temp s \<longrightarrow>
              a1 = Got t \<or> a2 = Got t \<or> a3 = Got t \<or> (last_cpu_temp s \<le> 0 \<and> t = 35)))) \<and>
   (windows w \<and>
    amd = win_gpu_is_amd (execute_local_command cmd_amd_detect (local_feed w !! 0)) \<and>
    b1 = win_gpu_wmi L (execute_local_command cmd_amd_thermal_zone (local_feed w !! 1)) \<and>
    b2 = win_gpu_utility L (execute_local_command cmd_amdgpu_utility (local_feed w !! 2)) \<and>
    b3 = win_gpu_wmic L (execute_local_command cmd_wmic (local_feed w !! (if amd then 4 else 1))) \<longrightarrow>
      (case get_gpu_temperature L s w of
         (t, s', w') \<Rightarrow>
           t = last_gpu_temp s' \<and>
           ((amd \<longrightarrow> b1 = None \<and> b2 = None) \<and> b3 = None \<and> 0 < last_gpu_temp s
              \<longrightarrow> t = last_gpu_temp s) \<and>
           ((amd \<longrightarrow> b1 = None \<and> b2 = None) \<and> b3 = None \<and> last_gpu_temp s \<le> 0 \<longrightarrow> t = 60) \<and>
           (last_gpu_temp s' \<noteq> last_gpu_temp s \<longrightarrow>
              (amd \<and> (b1 = Some t \<or> b2 = Some t)) \<or> b3 = Some t \<or>
              (last_gpu_temp s \<le> 0 \<and> t = 60))))"
proof (intro conjI impI)
  assume l: "\<not> windows w"
  obtain r1 s1 w1 where c1: "remote_call s w cmd_thermal_zone = (r1, s1, w1)"
    by (metis prod_cases3)
  obtain r2 s2 w2 where c2: "remote_call s1 w1 cmd_sensors = (r2, s2, w2)"
    by (metis prod_cases3)
  obtain t s' w' where c: "get_cpu_temperature L s w = (t, s', w')"
    by (metis prod_cases3)
  from linux_cpu_last_known [OF l c1 c2 c]
  show "case remote_call s w cmd_thermal_zone of
         (r1, s1, w1) \<Rightarrow>
           (case remote_call s1 w1 cmd_sensors of
              (r2, s2, w2) \<Rightarrow>
                (case get_cpu_temperature L s w of
                   (t, s', w') \<Rightarrow>
                     t = last_cpu_temp s' \<and>
                     ((snd r1 \<noteq> [] \<or> cpu_parse L (fst r1) = None) \<and>
                      (snd r2 \<noteq> [] \<or> cpu_parse L (fst r2) = None)
                        \<longrightarrow> t = last_cpu_temp s) \<and>
                     (last_cpu_temp s' \<noteq> last_cpu_temp s \<longrightarrow>
                        cpu_parse L (fst r1) = Some t \<or> cpu_parse L (fst r2) = Some t)))"
    by (auto simp: c1 c2 c)
next
  assume l: "\<not> windows w"
  obtain r1 s1 w1 where c1: "remote_call s w cmd_nvidia_smi = (r1, s1, w1)"
    by (metis prod_cases3)
  obtain r2 s2 w2 where c2: "remote_call s1 w1 cmd_rocm_smi = (r2, s2, w2)"
    by (metis prod_cases3)
  obtain r3 s3 w3 where c3: "remote_call s2 w2 cmd_vulkaninfo = (r3, s3, w3)"
    by (metis prod_cases3)
  obtain t s' w' where c: "get_gpu_temperature L s w = (t, s', w')"
    by (metis prod_cases3)
  from linux_gpu_last_known [OF l c1 c2 c3 c]
  show "case remote_call s w cmd_nvidia_smi of
         (r1, s1, w1) \<Rightarrow>
           (case remote_call s1 w1 cmd_rocm_smi of
              (r2, s2, w2) \<Rightarrow>
                (case remote_call s2 w2 cmd_vulkaninfo of
                   (r3, s3, w3) \<Rightarrow>
                     (case get_gpu_temperature L s w of
                        (t, s', w') \<Rightarrow>
                          t = last_gpu_temp s' \<and>
                          (gpu_nvidia L r1 = None \<and> gpu_rocm L r2 = None \<and> gpu_vulkan L r3 = None
                             \<longrightarrow> t = last_gpu_temp s) \<and>
                          (last_gpu_temp s' \<noteq> last_gpu_temp s \<longrightarrow>
                             gpu_nvidia L r1 = Some t \<or> gpu_rocm L r2 = Some t \<or>
                             gpu_vulkan L r3 = Some t))))"
    by (auto simp: c1 c2 c3 c)
next
  assume a: "windows w \<and>
    a1 = win_cpu_wmi L (execute_local_command cmd_wmi_thermal_zone (local_feed w !! 0)) \<and>
    a2 = win_cpu_cim L (execute_local_command cmd_cim_thermal_zone (local_feed w !! 1)) \<and>
    a3 = win_cpu_wmic L (execute_local_command cmd_wmic (local_feed w !! 2))"
  obtain t s' w' where c: "get_cpu_temperature L s w = (t, s', w')"
    by (metis prod_cases3)
  from a have "windows w"
    and "a1 = win_cpu_wmi L (execute_local_command cmd_wmi_thermal_zone (local_feed w !! 0))"
    and "a2 = win_cpu_cim L (execute_local_command cmd_cim_thermal_zone (local_feed w !! 1))"
    and "a3 = win_cpu_wmic L (execute_local_command cmd_wmic (local_feed w !! 2))"
    by simp_all
  from windows_cpu_last_known [OF this c]
  show "case get_cpu_temperature L s w of
         (t, s', w') \<Rightarrow>
           t = last_cpu_temp s' \<and>
           (a1 \<in> {Nothing, Raises} \<and> a2 \<in> {Nothing, Raises} \<and> a3 \<in> {Nothing, Raises} \<and>
            0 < last_cpu_temp s \<longrightarrow> t = last_cpu_temp s) \<and>
           (a1 = Nothing \<and> a2 = Nothing \<and> a3 = Nothing \<and> last_cpu_temp s \<le> 0 \<longrightarrow> t = 35) \<and>
           (last_cpu_temp s' \<noteq> last_cpu_temp s \<longrightarrow>
              a1 = Got t \<or> a2 = Got t \<or> a3 = Got t \<or> (last_cpu_temp s \<le> 0 \<and> t = 35))"
    by (auto simp: c)
next
  assume a: "windows w \<and>
    amd = win_gpu_is_amd (execute_local_command cmd_amd_detect (local_feed w !! 0)) \<and>
    b1 = win_gpu_wmi L (execute_local_command cmd_amd_thermal_zone (local_feed w !! 1)) \<and>
    b2 = win_gpu_utility L (execute_local_command cmd_amdgpu_utility (local_feed w !! 2)) \<and>
    b3 = win_gpu_wmic L (execute_local_command cmd_wmic (local_feed w !! (if amd then 4 else 1)))"
  obtain t s' w' where c: "get_gpu_temperature L s w = (t, s', w')"
    by (metis prod_cases3)
  from a have "windows w"
    and "amd = win_gpu_is_amd (execute_local_command cmd_amd_detect (local_feed w !! 0))"
    and "b1 = win_gpu_wmi L (execute_local_command cmd_amd_thermal_zone (local_feed w !! 1))"
    and "b2 = win_gpu_utility L (execute_local_command cmd_amdgpu_utility (local_feed w !! 2))"
    and "b3 = win_gpu_wmic L (execute_local_command cmd_wmic (local_feed w !! (if amd then 4 else 1)))"
    by simp_all
  from windows_gpu_last_known [OF this c]
  show "case get_gpu_temperature L s w of
         (t, s', w') \<Rightarrow>
           t = last_gpu_temp s' \<and>
           ((amd \<longrightarrow> b1 = None \<and> b2 = None) \<and> b3 = None \<and> 0 < last_gpu_temp s
              \<longrightarrow> t = last_gpu_temp s) \<and>
           ((amd \<longrightarrow> b1 = None \<and> b2 = None) \<and> b3 = None \<and> last_gpu_temp s \<le> 0 \<longrightarrow> t = 60) \<and>
           (last_gpu_temp s' \<noteq> last_gpu_temp s \<longrightarrow>
              (amd \<and> (b1 = Some t \<or> b2 = Some t)) \<or> b3 = Some t \<or>
              (last_gpu_temp s \<le> 0 \<and> t = 60))"
    by (auto simp: c)
qed

lemmas world_defs = offline_def windows_down_def answering_def accepting_def

lemma example_offline_cpu:
  "get_cpu_temperature plain_lib (the_monitor\<lparr>last_cpu_temp := 48, last_gpu_temp := 61\<rparr>) offline =
     (48, the_monitor\<lparr>last_cpu_temp := 48, last_gpu_temp := 61\<rparr>,
      offline\<lparr>ssh_feed := stl (stl (ssh_feed offline))\<rparr>)"
  by (simp add: get_cpu_temperature_def remote_call_def execute_command_def connect_def
      world_defs the_monitor_def init_monitor_def msg_no_connection_def)

lemma example_offline_gpu:
  "get_gpu_temperature plain_lib (the_monitor\<lparr>last_cpu_temp := 48, last_gpu_temp := 61\<rparr>) offline =
     (61, the_monitor\<lparr>last_cpu_temp := 48, last_gpu_temp := 61\<rparr>,
      offline\<lparr>ssh_feed := stl (stl (stl (ssh_feed offline)))\<rparr>)"
  by (simp add: get_gpu_temperature_def remote_call_def execute_command_def connect_def
      world_defs the_monitor_def init_monitor_def msg_no_connection_def
      gpu_nvidia_def gpu_rocm_def gpu_vulkan_def)

lemma example_windows_cpu:
  "get_cpu_temperature plain_lib the_monitor windows_down =
     (35, the_monitor\<lparr>last_cpu_temp := 35\<rparr>,
      windows_down\<lparr>local_feed := stl (stl (stl (local_feed windows_down)))\<rparr>)"
  by (simp add: get_cpu_temperature_def get_windows_cpu_temperature_def local_call_def
      execute_local_command_def world_defs the_monitor_def init_monitor_def msg_error_def
      win_cpu_wmi_def win_cpu_cim_def win_cpu_wmic_def)

lemma example_windows_gpu:
  "get_gpu_temperature plain_lib the_monitor windows_down =
     (60, the_monitor\<lparr>last_gpu_temp := 60\<rparr>,
      windows_down\<lparr>local_feed := stl (stl (local_feed windows_down))\<rparr>)"
  by (simp add: get_gpu_temperature_def get_windows_gpu_temperature_def local_call_def
      execute_local_command_def world_defs the_monitor_def init_monitor_def msg_error_def
      win_gpu_is_amd_def win_gpu_general_def win_gpu_wmic_def)

lemma example_windows_attempts:
  "win_cpu_wmi plain_lib (execute_local_command cmd_wmi_thermal_zone (local_feed windows_down !! 0)) = Nothing"
  "win_cpu_cim plain_lib (execute_local_command cmd_cim_thermal_zone (local_feed windows_down !! 1)) = Nothing"
  "win_cpu_wmic plain_lib (execute_local_command cmd_wmic (local_feed windows_down !! 2)) = Nothing"
  by (simp_all add: execute_local_command_def windows_down_def msg_error_def
      win_cpu_wmi_def win_cpu_cim_def win_cpu_wmic_def ascii_def)

theorem C6_last_known_value_witness:
  "fst (get_cpu_temperature plain_lib (the_monitor\<lparr>last_cpu_temp := 48, last_gpu_temp := 61\<rparr>) offline) = 48 \<and>
   fst (get_gpu_temperature plain_lib (the_monitor\<lparr>last_cpu_temp := 48, last_gpu_temp := 61\<rparr>) offline) = 61 \<and>
   fst (get_cpu_temperature plain_lib the_monitor windows_down) = 35 \<and>
   fst (get_gpu_temperature plain_lib the_monitor windows_down) = 60"
  using C6_last_known_value [where L = plain_lib and w = offline
      and s = "the_monitor\<lparr>last_cpu_temp := 48, last_gpu_temp := 61\<rparr>"]
    C6_last_known_value [where L = plain_lib and w = windows_down and s = the_monitor]
  by (simp add: example_offline_cpu example_offline_gpu example_windows_cpu example_windows_gpu)

text \<open>On Windows no query yields a reading, the stored CPU value is 0, and the
  reader stores and returns 35.\<close>

theorem C6_placeholder_counterexample:
  "win_cpu_wmi plain_lib
     (execute_local_command cmd_wmi_thermal_zone (local_feed windows_down !! 0)) = Nothing \<and>
   win_cpu_cim plain_lib
     (execute_local_command cmd_cim_thermal_zone (local_feed windows_down !! 1)) = Nothing \<and>
   win_cpu_wmic plain_lib
     (execute_local_command cmd_wmic (local_feed windows_down !! 2)) = Nothing \<and>
   last_cpu_temp the_monitor = 0 \<and>
   fst (get_cpu_temperature plain_lib the_monitor windows_down) = 35 \<and>
   last_cpu_temp (fst (snd (get_cpu_temperature plain_lib the_monitor windows_down))) = 35"
  using example_windows_attempts
  by (simp add: example_windows_cpu) (simp add: the_monitor_def init_monitor_def)

end
